theory Spec2Isabelle
  imports Complex_Main "HOL-Library.Monad_Syntax"
begin

section \<open>Numbers\<close>

text \<open>
  The calculators compute on JavaScript numbers. Amounts, rates and percentages are
  modelled by \<^typ>\<open>real\<close>: the arithmetic is the exact one. The rounding of the
  IEEE doubles is modelled apart, in the section on double-precision arithmetic, for the
  two properties that hold in exact arithmetic only. Counters that the source only ever starts at an integer
  and increments (months, loop years) are \<^typ>\<open>nat\<close>; ages and calendar years are
  \<^typ>\<open>int\<close>.

  A JavaScript division never raises: a zero divisor gives \<open>Infinity\<close>,
  \<open>-Infinity\<close> or \<open>NaN\<close>. Such a non-finite number is the value \<open>None\<close>
  here, a finite one is \<open>Some x\<close>.
\<close>

definition jdiv :: "real \<Rightarrow> real \<Rightarrow> real option" where
  "jdiv a b = (if b = 0 then None else Some (a / b))"

section \<open>Mortgage calculator\<close>

record MortgageFormData =
  homePrice :: real
  downPayment :: real
  loanTerm :: nat
  interestRate :: real
  monthlyOverpayment :: real

record MortgageResults =
  monthlyPayment :: real
  principalAndInterest :: real
  totalPayment :: real
  totalInterest :: real
  loanAmount :: real
  totalInterestWithOverpayment :: real
  interestSaved :: real
  newLoanTermMonths :: nat
  monthsReduced :: int
  higherRatePayment :: real
  lowerRatePayment :: real

text \<open>The object returned by \<open>calculateWithOverpayment\<close>:
  \<open>{ totalInterest, months: month }\<close>.\<close>

record OverpaymentResult =
  op_totalInterest :: real
  op_months :: nat

subsection \<open>calculateMonthlyPayment\<close>

definition calculateMonthlyPayment :: "real \<Rightarrow> real \<Rightarrow> nat \<Rightarrow> real option" where
  "calculateMonthlyPayment loanAmt interestRt loanTermYears =
     (let monthlyRate = interestRt / 100 / 12;
          numberOfPayments = loanTermYears * 12
      in if monthlyRate \<le> 0 then jdiv loanAmt (real numberOfPayments)
         else jdiv (loanAmt * (monthlyRate * (1 + monthlyRate) ^ numberOfPayments))
                   ((1 + monthlyRate) ^ numberOfPayments - 1))"

subsection \<open>calculateWithOverpayment\<close>

text \<open>
  The \<open>while (balance > 0 && month < originalTermMonths)\<close> loop, on its three
  variables \<open>balance\<close>, \<open>month\<close> and \<open>totalInterest\<close>. When the balance falls
  below zero the source adds \<open>balance * -1\<close> to \<open>totalInterest\<close> and resets the
  balance to zero.
\<close>

function overpaymentLoop ::
  "real \<Rightarrow> real \<Rightarrow> real \<Rightarrow> nat \<Rightarrow> real \<Rightarrow> nat \<Rightarrow> real \<Rightarrow> OverpaymentResult" where
  "overpaymentLoop monthlyInterestRate regularPayment overpayment originalTermMonths
       balance month totInterest =
     (if balance > 0 \<and> month < originalTermMonths then
        (let interestThisMonth = balance * monthlyInterestRate;
             totInterest1 = totInterest + interestThisMonth;
             principalThisMonth = regularPayment - interestThisMonth + overpayment;
             balance1 = balance - principalThisMonth
         in if balance1 < 0
            then overpaymentLoop monthlyInterestRate regularPayment overpayment
                   originalTermMonths 0 (Suc month) (totInterest1 + balance1 * (- 1))
            else overpaymentLoop monthlyInterestRate regularPayment overpayment
                   originalTermMonths balance1 (Suc month) totInterest1)
      else \<lparr>op_totalInterest = totInterest, op_months = month\<rparr>)"
  by pat_completeness auto
termination
  by (relation "measure (\<lambda>(r, p, ov, n, b, m, t). n - m)") auto

declare overpaymentLoop.simps [simp del]

definition calculateWithOverpayment ::
  "real \<Rightarrow> real \<Rightarrow> real \<Rightarrow> real \<Rightarrow> nat \<Rightarrow> OverpaymentResult" where
  "calculateWithOverpayment loanAmt monthlyInterestRate regularPayment overpayment
       originalTermMonths =
     overpaymentLoop monthlyInterestRate regularPayment overpayment originalTermMonths
       loanAmt 0 0"

text \<open>
  The balances at the start of each period that the loop runs: the same loop, recording
  \<open>balance\<close> on entry to the body instead of accumulating the interest.
\<close>

function periodBalances :: "real \<Rightarrow> real \<Rightarrow> real \<Rightarrow> nat \<Rightarrow> real \<Rightarrow> nat \<Rightarrow> real list" where
  "periodBalances monthlyInterestRate regularPayment overpayment originalTermMonths
       balance month =
     (if balance > 0 \<and> month < originalTermMonths then
        (let interestThisMonth = balance * monthlyInterestRate;
             principalThisMonth = regularPayment - interestThisMonth + overpayment;
             balance1 = balance - principalThisMonth
         in balance #
            periodBalances monthlyInterestRate regularPayment overpayment originalTermMonths
              (if balance1 < 0 then 0 else balance1) (Suc month))
      else [])"
  by pat_completeness auto
termination
  by (relation "measure (\<lambda>(r, p, ov, n, b, m). n - m)") auto

declare periodBalances.simps [simp del]

subsection \<open>calculateMortgage\<close>

text \<open>
  The body of \<open>calculateMortgage\<close>, from the form data to the record handed to
  \<open>setResults\<close>. The result is \<open>None\<close> when one of the three payments is not a
  finite number (a term of zero years): the source then stores non-finite fields.
\<close>

definition calculateMortgage :: "MortgageFormData \<Rightarrow> MortgageResults option" where
  "calculateMortgage formData =
     (let loanAmt = homePrice formData - downPayment formData;
          monthlyInterestRate = interestRate formData / 100 / 12;
          numberOfPayments = loanTerm formData * 12
      in case (if monthlyInterestRate > 0
               then jdiv (loanAmt * (monthlyInterestRate *
                            (1 + monthlyInterestRate) ^ numberOfPayments))
                         ((1 + monthlyInterestRate) ^ numberOfPayments - 1)
               else jdiv loanAmt (real numberOfPayments)) of
           None \<Rightarrow> None
         | Some pAndI \<Rightarrow>
            (let totalMonthlyPayment = pAndI;
                 totInterest = pAndI * real numberOfPayments - loanAmt;
                 withOver =
                   (if monthlyOverpayment formData > 0
                    then (let r = calculateWithOverpayment loanAmt monthlyInterestRate
                                    pAndI (monthlyOverpayment formData) numberOfPayments
                          in (op_totalInterest r, totInterest - op_totalInterest r,
                              op_months r, int numberOfPayments - int (op_months r)))
                    else (totInterest, 0, numberOfPayments, 0));
                 higherRate = interestRate formData + 1;
                 lowerRate = max 0 (interestRate formData - 1)
             in case (calculateMonthlyPayment loanAmt higherRate (loanTerm formData),
                      calculateMonthlyPayment loanAmt lowerRate (loanTerm formData)) of
                  (Some higher, Some lower) \<Rightarrow>
                    Some \<lparr>monthlyPayment = totalMonthlyPayment,
                          principalAndInterest = pAndI,
                          totalPayment = totalMonthlyPayment * real numberOfPayments,
                          totalInterest = totInterest,
                          loanAmount = loanAmt,
                          totalInterestWithOverpayment = fst withOver,
                          interestSaved = fst (snd withOver),
                          newLoanTermMonths = fst (snd (snd withOver)),
                          monthsReduced = snd (snd (snd withOver)),
                          higherRatePayment = higher,
                          lowerRatePayment = lower\<rparr>
                | _ \<Rightarrow> None))"

section \<open>Pension projection\<close>

record PensionFormData =
  currentAge :: int
  retirementAge :: int
  currentPension :: real
  monthlyContribution :: real
  employerContribution :: real
  stocksAllocation :: real
  bondsAllocation :: real
  cashAllocation :: real
  stocksReturn :: real
  bondsReturn :: real
  cashReturn :: real
  inflationRate :: real

text \<open>One element of \<open>yearlyBreakdown\<close>.\<close>

record YearEntry =
  age :: int
  year :: int
  pensionValue :: real
  realPensionValue :: "real option"
  annualContribution :: real
  annualEmployerContribution :: real
  annualGrowth :: real
  stocks :: real
  bonds :: real
  cash :: real

record ProjectionResult =
  finalPensionNominal :: real
  finalPensionReal :: "real option"
  totalContributions :: real
  totalEmployerContributions :: real
  totalInvestmentGrowth :: real
  yearlyBreakdown :: "YearEntry list"

text \<open>
  The variables the projection loop updates: \<open>pensionValue\<close>,
  \<open>totalContributions\<close>, \<open>totalEmployerContributions\<close>, \<open>totalGrowth\<close> and the
  array \<open>yearlyBreakdown\<close> (\<open>push\<close> appends at the end).
\<close>

record ProjectionVars =
  v_pensionValue :: real
  v_totalContributions :: real
  v_totalEmployerContributions :: real
  v_totalGrowth :: real
  v_yearlyBreakdown :: "YearEntry list"

datatype projection_error =
  RetirementAgeError  \<comment> \<open>\<open>throw new Error("Retirement age must be greater than current age")\<close>\<close>
  | BreakdownTypeError  \<comment> \<open>reading \<open>.realPensionValue\<close> of \<open>undefined\<close>\<close>

text \<open>The constants computed before the loop.\<close>

definition weightedReturn :: "PensionFormData \<Rightarrow> real" where
  "weightedReturn formData =
     stocksAllocation formData / 100 * stocksReturn formData +
     bondsAllocation formData / 100 * bondsReturn formData +
     cashAllocation formData / 100 * cashReturn formData"

definition annualContributionOf :: "PensionFormData \<Rightarrow> real" where
  "annualContributionOf formData = monthlyContribution formData * 12"

definition annualEmployerContributionOf :: "PensionFormData \<Rightarrow> real" where
  "annualEmployerContributionOf formData = employerContribution formData * 12"

text \<open>
  The variables as initialised before the loop: \<open>pensionValue\<close> and
  \<open>totalContributions\<close> both start at \<open>currentPension\<close>, the other totals at 0,
  the breakdown empty.
\<close>

definition initialVars :: "PensionFormData \<Rightarrow> ProjectionVars" where
  "initialVars formData =
     \<lparr>v_pensionValue = currentPension formData,
       v_totalContributions = currentPension formData,
       v_totalEmployerContributions = 0,
       v_totalGrowth = 0,
       v_yearlyBreakdown = []\<rparr>"

text \<open>The body of the \<open>for\<close> loop at loop year \<open>yr\<close>; \<open>currentYear\<close> is
  \<open>new Date().getFullYear()\<close>.\<close>

definition projectionYear ::
  "PensionFormData \<Rightarrow> int \<Rightarrow> nat \<Rightarrow> ProjectionVars \<Rightarrow> ProjectionVars" where
  "projectionYear formData currentYear yr v =
     (let ageNow = currentAge formData + int yr;
          calendarYear = currentYear + int yr;
          yearGrowth = (if yr > 0 then v_pensionValue v * (weightedReturn formData / 100) else 0);
          v1 = (if yr > 0
                then v\<lparr>v_pensionValue := v_pensionValue v +
                           (yearGrowth + annualContributionOf formData +
                            annualEmployerContributionOf formData),
                        v_totalContributions :=
                           v_totalContributions v + annualContributionOf formData,
                        v_totalEmployerContributions :=
                           v_totalEmployerContributions v + annualEmployerContributionOf formData,
                        v_totalGrowth := v_totalGrowth v + yearGrowth\<rparr>
                else v);
          inflationFactor = (1 + inflationRate formData / 100) ^ yr;
          realValue = jdiv (v_pensionValue v1) inflationFactor;
          stocksValue = v_pensionValue v1 * (stocksAllocation formData / 100);
          bondsValue = v_pensionValue v1 * (bondsAllocation formData / 100);
          cashValue = v_pensionValue v1 * (cashAllocation formData / 100)
      in v1\<lparr>v_yearlyBreakdown := v_yearlyBreakdown v1 @
                [\<lparr>age = ageNow,
                  year = calendarYear,
                  pensionValue = v_pensionValue v1,
                  realPensionValue = realValue,
                  annualContribution = (if yr > 0 then annualContributionOf formData else 0),
                  annualEmployerContribution =
                    (if yr > 0 then annualEmployerContributionOf formData else 0),
                  annualGrowth = yearGrowth,
                  stocks = stocksValue,
                  bonds = bondsValue,
                  cash = cashValue\<rparr>]\<rparr>)"

text \<open>\<open>for (let year = 0; year <= yearsToRetirement; year++)\<close>\<close>

function projectionLoop ::
  "PensionFormData \<Rightarrow> int \<Rightarrow> nat \<Rightarrow> nat \<Rightarrow> ProjectionVars \<Rightarrow> ProjectionVars" where
  "projectionLoop formData currentYear yearsToRetirement yr v =
     (if yr \<le> yearsToRetirement
      then projectionLoop formData currentYear yearsToRetirement (Suc yr)
             (projectionYear formData currentYear yr v)
      else v)"
  by pat_completeness auto
termination
  by (relation "measure (\<lambda>(f, c, n, y, v). Suc n - y)") auto

declare projectionLoop.simps [simp del]

text \<open>
  The \<open>try\<close> block of \<open>calculateProjection\<close>: either the record handed to
  \<open>setResults\<close> or the error thrown.
\<close>

definition calculateProjection_try ::
  "int \<Rightarrow> PensionFormData \<Rightarrow> projection_error + ProjectionResult" where
  "calculateProjection_try currentYear formData =
     (let yearsToRetirement = retirementAge formData - currentAge formData
      in if yearsToRetirement \<le> 0 then Inl RetirementAgeError
         else
           (let v = projectionLoop formData currentYear (nat yearsToRetirement) 0
                      (initialVars formData)
            in case v_yearlyBreakdown v of
                 [] \<Rightarrow> Inl BreakdownTypeError
               | _ # _ \<Rightarrow>
                   Inr \<lparr>finalPensionNominal = v_pensionValue v,
                        finalPensionReal = realPensionValue (last (v_yearlyBreakdown v)),
                        totalContributions = v_totalContributions v,
                        totalEmployerContributions = v_totalEmployerContributions v,
                        totalInvestmentGrowth = v_totalGrowth v,
                        yearlyBreakdown = v_yearlyBreakdown v\<rparr>))"

subsection \<open>The component state and the effect that validates the allocation\<close>

text \<open>
  The message \<open>Asset allocation must total 100% (currently N%)\<close>, carrying the
  total \<open>N\<close> it shows.
\<close>

datatype allocation_message = AllocationMustTotal100 real

text \<open>
  The part of the component state that the effect on \<open>formData\<close> and
  \<open>calculateProjection\<close> read or write. The \<open>setTimeout\<close> callback is run to
  completion: a caught error leaves \<open>results\<close> as it was.
\<close>

record PensionState =
  ps_formData :: PensionFormData
  ps_results :: "ProjectionResult option"
  ps_isCalculating :: bool
  ps_selectedYearIndex :: "int option"
  ps_allocationError :: "allocation_message option"

definition calculateProjection :: "int \<Rightarrow> PensionState \<Rightarrow> PensionState" where
  "calculateProjection currentYear st =
     (case calculateProjection_try currentYear (ps_formData st) of
        Inr res \<Rightarrow>
          st\<lparr>ps_results := Some res,
             ps_selectedYearIndex := Some (int (length (yearlyBreakdown res)) - 1),
             ps_isCalculating := False\<rparr>
      | Inl e \<Rightarrow> st\<lparr>ps_isCalculating := False\<rparr>)"

text \<open>The initial values of the \<open>useState\<close> hooks.\<close>

definition defaultFormData :: PensionFormData where
  "defaultFormData =
     \<lparr>currentAge = 30, retirementAge = 68, currentPension = 50000,
       monthlyContribution = 500, employerContribution = 300,
       stocksAllocation = 70, bondsAllocation = 20, cashAllocation = 10,
       stocksReturn = 7.0, bondsReturn = 3.0, cashReturn = 1.5, inflationRate = 2.0\<rparr>"

definition initialState :: PensionState where
  "initialState =
     \<lparr>ps_formData = defaultFormData, ps_results = None, ps_isCalculating = False,
       ps_selectedYearIndex = None, ps_allocationError = None\<rparr>"

text \<open>The \<open>useEffect\<close> on \<open>formData\<close>.\<close>

definition allocationEffect :: "int \<Rightarrow> PensionState \<Rightarrow> PensionState" where
  "allocationEffect currentYear st =
     (let totalAllocation = stocksAllocation (ps_formData st) +
                            bondsAllocation (ps_formData st) +
                            cashAllocation (ps_formData st)
      in if totalAllocation \<noteq> 100
         then st\<lparr>ps_allocationError := Some (AllocationMustTotal100 totalAllocation)\<rparr>
         else calculateProjection currentYear (st\<lparr>ps_allocationError := None\<rparr>))"

section \<open>Purchasing power\<close>

record PurchasingPowerFormData =
  amount :: real
  startYear :: int
  endYear :: int

text \<open>One element of the purchasing-power \<open>yearlyBreakdown\<close>.\<close>

record PowerYearEntry =
  pp_year :: int
  pp_amount :: real
  pp_inflationRate :: real

record PurchasingPowerResult =
  originalAmount :: real
  adjustedAmount :: real
  percentageChange :: "real option"
  inflationFactor :: "real option"
  averageInflation :: "real option"
  pp_yearlyBreakdown :: "PowerYearEntry list"

datatype power_error = PowerTypeError  \<comment> \<open>reading \<open>.amount\<close> of \<open>undefined\<close>\<close>

definition ukInflationData :: "(int \<times> real) list" where
  "ukInflationData =
     [(1980, 18.0), (1981, 11.9), (1982, 8.6), (1983, 4.6), (1984, 5.0), (1985, 6.1),
      (1986, 3.4), (1987, 4.2), (1988, 4.9), (1989, 7.8), (1990, 9.5), (1991, 5.9),
      (1992, 3.7), (1993, 1.6), (1994, 2.4), (1995, 3.5), (1996, 2.4), (1997, 3.1),
      (1998, 3.4), (1999, 1.5), (2000, 3.0), (2001, 1.8), (2002, 1.7), (2003, 2.9),
      (2004, 3.0), (2005, 2.8), (2006, 3.2), (2007, 4.3), (2008, 4.0), (2009, - 0.5),
      (2010, 4.6), (2011, 5.2), (2012, 3.2), (2013, 3.0), (2014, 2.4), (2015, 1.0),
      (2016, 1.8), (2017, 3.6), (2018, 3.3), (2019, 2.6), (2020, 1.5), (2021, 4.1),
      (2022, 9.0), (2023, 6.7), (2024, 3.2)]"

text \<open>\<open>Math.min(...Object.keys(ukInflationData).map(Number))\<close>\<close>

definition earliestYear :: int where
  "earliestYear = fold min (map fst (tl ukInflationData)) (fst (hd ukInflationData))"

text \<open>
  \<open>ukInflationData[year] || 2.0\<close>: a missing year reads \<open>undefined\<close>, and \<open>||\<close>
  replaces every falsy left operand, so a stored rate of \<open>0\<close> as well.
\<close>

definition inflationRateOf :: "int \<Rightarrow> real" where
  "inflationRateOf yr =
     (case map_of ukInflationData yr of
        None \<Rightarrow> 2.0
      | Some rate \<Rightarrow> if rate = 0 then 2.0 else rate)"

text \<open>
  \<open>Math.pow(x, y)\<close> on finite numbers: an integral exponent is a repeated product or
  quotient; otherwise a negative base gives \<open>NaN\<close>, and zero to a negative power is
  \<open>Infinity\<close>.
\<close>

definition jpow :: "real \<Rightarrow> real \<Rightarrow> real option" where
  "jpow x y =
     (if y = of_int \<lfloor>y\<rfloor>
      then (if x = 0 \<and> y < 0 then None else Some (power_int x \<lfloor>y\<rfloor>))
      else if x < 0 \<or> (x = 0 \<and> y < 0) then None
      else Some (x powr y))"

text \<open>\<open>for (let year = validStartYear; year <= validEndYear; year++)\<close>, on
  \<open>currentAmount\<close> and the array \<open>yearlyBreakdown\<close>.\<close>

function purchasingLoop ::
  "int \<Rightarrow> int \<Rightarrow> real \<Rightarrow> PowerYearEntry list \<Rightarrow> PowerYearEntry list" where
  "purchasingLoop validEndYear yr currentAmount breakdown =
     (if yr \<le> validEndYear
      then (let rate = inflationRateOf yr;
                breakdown1 = breakdown @
                  [\<lparr>pp_year = yr, pp_amount = currentAmount, pp_inflationRate = rate\<rparr>];
                currentAmount1 = (if yr < validEndYear
                                  then currentAmount * (1 + rate / 100)
                                  else currentAmount)
            in purchasingLoop validEndYear (yr + 1) currentAmount1 breakdown1)
      else breakdown)"
  by pat_completeness auto
termination
  by (relation "measure (\<lambda>(e, y, a, b). nat (e + 1 - y))") auto

declare purchasingLoop.simps [simp del]

text \<open>
  The \<open>try\<close> block of \<open>calculatePurchasingPower\<close>; \<open>currentYear\<close> is
  \<open>new Date().getFullYear()\<close>.
\<close>

definition calculatePurchasingPower_try ::
  "int \<Rightarrow> PurchasingPowerFormData \<Rightarrow> power_error + PurchasingPowerResult" where
  "calculatePurchasingPower_try currentYear formData =
     (let validStartYear = max earliestYear (min (startYear formData) (endYear formData));
          validEndYear = min currentYear (max (endYear formData) validStartYear);
          breakdown = purchasingLoop validEndYear validStartYear (amount formData) []
      in case breakdown of
           [] \<Rightarrow> Inl PowerTypeError
         | _ # _ \<Rightarrow>
            (let adjusted = pp_amount (last breakdown);
                 change = map_option (\<lambda>q. q * 100)
                            (jdiv (adjusted - amount formData) (amount formData));
                 yearDiff = validEndYear - validStartYear;
                 average = (if yearDiff > 0
                            then (case jdiv adjusted (amount formData) of
                                    None \<Rightarrow> None
                                  | Some ratio \<Rightarrow>
                                      map_option (\<lambda>p. p - 1)
                                        (case jdiv 1 (real_of_int yearDiff) of
                                           None \<Rightarrow> None
                                         | Some e \<Rightarrow> jpow ratio e))
                            else Some 0)
             in Inr \<lparr>originalAmount = amount formData,
                     adjustedAmount = adjusted,
                     percentageChange = change,
                     inflationFactor = jdiv adjusted (amount formData),
                     averageInflation = map_option (\<lambda>a. a * 100) average,
                     pp_yearlyBreakdown = breakdown\<rparr>))"

section \<open>Double-precision arithmetic\<close>

text \<open>
  The definitions above compute in exact real arithmetic. The source computes in IEEE 754
  binary64 numbers, where every addition, subtraction, multiplication and division
  returns the exact result rounded to the nearest double, ties to the even significand.
  This section models that rounding, and repeats in it the two computations whose exact
  equalities depend on it.

  \<open>rne\<close> rounds a real to the nearest integer, ties to even. \<open>dround\<close> rounds a real
  to the nearest double: the first exponent \<open>e\<close> from \<open>-1022\<close> with
  \<open>|x| < 2 ^ (e + 1)\<close> fixes the spacing \<open>2 ^ (e - 52)\<close> of the doubles around \<open>x\<close>
  (the subnormal spacing \<open>2 ^ -1074\<close> below \<open>2 ^ -1022\<close>); a result of magnitude
  \<open>2 ^ 1024\<close> or more is \<open>Infinity\<close>, the value \<open>None\<close>. The operands of the four
  operations are doubles; the sign of zero is not followed.
\<close>

definition rne :: "real \<Rightarrow> int" where
  "rne r = (let f = \<lfloor>r\<rfloor>; d = r - of_int f
            in if d < 1 / 2 then f
               else if 1 / 2 < d then f + 1
               else if even f then f else f + 1)"

definition dround :: "real \<Rightarrow> real option" where
  "dround x =
     (case find (\<lambda>e. \<bar>x\<bar> < 2 powi (e + 1)) [- 1022..1023] of
        None \<Rightarrow> None
      | Some e \<Rightarrow>
          (let q = 2 powi (e - 52); y = of_int (rne (x / q)) * q
           in if \<bar>y\<bar> < 2 powi 1024 then Some y else None))"

definition dadd :: "real \<Rightarrow> real \<Rightarrow> real option" where
  "dadd a b = dround (a + b)"

definition dsub :: "real \<Rightarrow> real \<Rightarrow> real option" where
  "dsub a b = dround (a - b)"

definition dmul :: "real \<Rightarrow> real \<Rightarrow> real option" where
  "dmul a b = dround (a * b)"

definition ddiv :: "real \<Rightarrow> real \<Rightarrow> real option" where
  "ddiv a b = (if b = 0 then None else dround (a / b))"

subsection \<open>calculateMonthlyPayment in doubles\<close>

text \<open>
  \<open>calculateMonthlyPayment\<close> with every operation rounded. A non-finite intermediate
  makes the result non-finite. \<open>Math.pow\<close> is implementation-approximated; it is taken
  here as the correctly rounded power. The branch that uses it is not taken at rate 0.
\<close>

definition calculateMonthlyPayment_double :: "real \<Rightarrow> real \<Rightarrow> nat \<Rightarrow> real option" where
  "calculateMonthlyPayment_double loanAmt interestRt loanTermYears =
     do {
       pct \<leftarrow> ddiv interestRt 100;
       monthlyRate \<leftarrow> ddiv pct 12;
       numberOfPayments \<leftarrow> dmul (real loanTermYears) 12;
       if monthlyRate \<le> 0 then ddiv loanAmt numberOfPayments
       else do {
         base \<leftarrow> dadd 1 monthlyRate;
         pw \<leftarrow> dround (base ^ (loanTermYears * 12));
         rpw \<leftarrow> dmul monthlyRate pw;
         numerator \<leftarrow> dmul loanAmt rpw;
         denominator \<leftarrow> dsub pw 1;
         ddiv numerator denominator
       }
     }"

subsection \<open>The totals of the pension projection in doubles\<close>

text \<open>
  The four accumulators of the projection loop, \<open>pensionValue\<close>,
  \<open>totalContributions\<close>, \<open>totalEmployerContributions\<close> and \<open>totalGrowth\<close>, with
  every operation rounded and in the order the source evaluates them:
  \<open>pensionValue += yearGrowth + annualContribution + annualEmployerContribution\<close> adds
  the growth and the own contribution first, then the employer contribution, then the
  balance.
\<close>

record ProjectionTotals =
  d_pensionValue :: real
  d_totalContributions :: real
  d_totalEmployerContributions :: real
  d_totalGrowth :: real

definition weightedReturn_double :: "PensionFormData \<Rightarrow> real option" where
  "weightedReturn_double formData =
     do {
       s \<leftarrow> ddiv (stocksAllocation formData) 100;
       sw \<leftarrow> dmul s (stocksReturn formData);
       b \<leftarrow> ddiv (bondsAllocation formData) 100;
       bw \<leftarrow> dmul b (bondsReturn formData);
       c \<leftarrow> ddiv (cashAllocation formData) 100;
       cw \<leftarrow> dmul c (cashReturn formData);
       sb \<leftarrow> dadd sw bw;
       dadd sb cw
     }"

definition projectionYear_double ::
  "real \<Rightarrow> real \<Rightarrow> real \<Rightarrow> nat \<Rightarrow> ProjectionTotals \<Rightarrow> ProjectionTotals option" where
  "projectionYear_double weighted annualContrib annualEmployerContrib yr t =
     (if yr > 0
      then do {
             rate \<leftarrow> ddiv weighted 100;
             yearGrowth \<leftarrow> dmul (d_pensionValue t) rate;
             gc \<leftarrow> dadd yearGrowth annualContrib;
             gce \<leftarrow> dadd gc annualEmployerContrib;
             pv \<leftarrow> dadd (d_pensionValue t) gce;
             tc \<leftarrow> dadd (d_totalContributions t) annualContrib;
             te \<leftarrow> dadd (d_totalEmployerContributions t) annualEmployerContrib;
             tg \<leftarrow> dadd (d_totalGrowth t) yearGrowth;
             Some \<lparr>d_pensionValue = pv, d_totalContributions = tc,
                   d_totalEmployerContributions = te, d_totalGrowth = tg\<rparr>
           }
      else Some t)"

function projectionLoop_double ::
  "real \<Rightarrow> real \<Rightarrow> real \<Rightarrow> nat \<Rightarrow> nat \<Rightarrow> ProjectionTotals \<Rightarrow> ProjectionTotals option" where
  "projectionLoop_double weighted annualContrib annualEmployerContrib yearsToRetirement yr t =
     (if yr \<le> yearsToRetirement
      then (case projectionYear_double weighted annualContrib annualEmployerContrib yr t of
              None \<Rightarrow> None
            | Some t1 \<Rightarrow>
                projectionLoop_double weighted annualContrib annualEmployerContrib
                  yearsToRetirement (Suc yr) t1)
      else Some t)"
  by pat_completeness auto
termination
  by (relation "measure (\<lambda>(w, a, b, n, y, t). Suc n - y)") auto

declare projectionLoop_double.simps [simp del]

text \<open>
  The totals that \<open>calculateProjection\<close> hands to \<open>setResults\<close>; \<open>None\<close> when the
  retirement-age guard throws or a total is not finite.
\<close>

definition projectionTotals_double :: "PensionFormData \<Rightarrow> ProjectionTotals option" where
  "projectionTotals_double formData =
     (let yearsToRetirement = retirementAge formData - currentAge formData
      in if yearsToRetirement \<le> 0 then None
         else do {
                weighted \<leftarrow> weightedReturn_double formData;
                annualContrib \<leftarrow> dmul (monthlyContribution formData) 12;
                annualEmployerContrib \<leftarrow> dmul (employerContribution formData) 12;
                projectionLoop_double weighted annualContrib annualEmployerContrib
                  (nat yearsToRetirement) 0
                  \<lparr>d_pensionValue = currentPension formData,
                    d_totalContributions = currentPension formData,
                    d_totalEmployerContributions = 0,
                    d_totalGrowth = 0\<rparr>
              })"

section \<open>Properties of the mortgage calculator\<close>

subsection \<open>Powers of the growth factor\<close>

lemma growth_power_gt_one:
  fixes r :: real
  shows "0 < r \<Longrightarrow> 0 < n \<Longrightarrow> 1 < (1 + r) ^ n"
  by (rule one_less_power) simp_all

lemma growth_power_neq_one:
  fixes r :: real
  assumes "0 < r" "0 < n"
  shows "(1 + r) ^ n \<noteq> 1"
proof
  assume "(1 + r) ^ n = 1"
  with growth_power_gt_one[OF assms] show False by linarith
qed

lemma growth_power_bound:
  fixes r :: real
  shows "0 \<le> r \<Longrightarrow> (1 + r) ^ n - 1 \<le> real n * r * (1 + r) ^ n"
proof (induction n)
  case 0
  show ?case by simp
next
  case (Suc n)
  have q1: "1 \<le> (1 + r) ^ Suc n"
    by (rule one_le_power) (use Suc.prems in simp)
  have "(1 + r) ^ Suc n - 1 = (1 + r) * ((1 + r) ^ n - 1) + r"
    by (simp add: algebra_simps)
  also have "\<dots> \<le> (1 + r) * (real n * r * (1 + r) ^ n) + r"
    using Suc by (simp add: mult_left_mono)
  also have "\<dots> \<le> (1 + r) * (real n * r * (1 + r) ^ n) + r * (1 + r) ^ Suc n"
    using q1 Suc.prems mult_left_mono[of 1 "(1 + r) ^ Suc n" r] by simp
  also have "\<dots> = real (Suc n) * r * (1 + r) ^ Suc n"
    by (simp add: algebra_simps)
  finally show ?case .
qed

lemma growth_power_strict_bound:
  fixes r :: real
  assumes "0 < r" "0 < n"
  shows "(1 + r) ^ n - 1 < real n * r * (1 + r) ^ n"
proof -
  obtain m where n: "n = Suc m" using assms(2) by (cases n) auto
  have q1: "1 < (1 + r) ^ Suc m"
    by (rule one_less_power) (use assms(1) in simp_all)
  have "(1 + r) ^ Suc m - 1 = (1 + r) * ((1 + r) ^ m - 1) + r"
    by (simp add: algebra_simps)
  also have "\<dots> \<le> (1 + r) * (real m * r * (1 + r) ^ m) + r"
    using growth_power_bound[of r m] assms(1) by (simp add: mult_left_mono)
  also have "\<dots> < (1 + r) * (real m * r * (1 + r) ^ m) + r * (1 + r) ^ Suc m"
    using q1 assms(1) mult_strict_left_mono[of 1 "(1 + r) ^ Suc m" r] by simp
  also have "\<dots> = real (Suc m) * r * (1 + r) ^ Suc m"
    by (simp add: algebra_simps)
  finally show ?thesis using n by simp
qed

subsection \<open>The periodic payment\<close>

lemma payment_positive_rate:
  assumes "0 < interestRt" "0 < loanTermYears"
  shows "calculateMonthlyPayment P interestRt loanTermYears =
     Some (P * (interestRt / 100 / 12) * (1 + interestRt / 100 / 12) ^ (loanTermYears * 12)
            / ((1 + interestRt / 100 / 12) ^ (loanTermYears * 12) - 1))"
  using assms growth_power_neq_one[of "interestRt / 100 / 12" "loanTermYears * 12"]
  by (simp add: calculateMonthlyPayment_def jdiv_def Let_def mult.assoc)

lemma payment_zero_rate:
  assumes "interestRt \<le> 0" "0 < loanTermYears"
  shows "calculateMonthlyPayment P interestRt loanTermYears =
           Some (P / real (loanTermYears * 12))"
  using assms by (simp add: calculateMonthlyPayment_def jdiv_def Let_def)

text \<open>
  Claim C2. With the periodic rate \<open>r = interestRate / 100 / 12\<close> and the number of
  periods \<open>n = loanTermYears * 12\<close> that \<open>calculateMonthlyPayment\<close> derives from its
  arguments, a principal \<open>P > 0\<close> and \<open>n > 0\<close>: the function returns
  \<open>P r (1 + r)^n / ((1 + r)^n - 1)\<close> when \<open>r > 0\<close>, and \<open>P / n\<close> when \<open>r = 0\<close>.
\<close>

theorem calculateMonthlyPayment_formula:
  assumes "0 < P" and "0 < loanTermYears"
  shows "(let r = interestRt / 100 / 12; n = loanTermYears * 12 in
          (0 < r \<longrightarrow> calculateMonthlyPayment P interestRt loanTermYears =
                      Some (P * r * (1 + r) ^ n / ((1 + r) ^ n - 1))) \<and>
          (r = 0 \<longrightarrow> calculateMonthlyPayment P interestRt loanTermYears =
                      Some (P / real n)))"
  using assms(2)
  by (simp add: Let_def payment_positive_rate payment_zero_rate)

theorem calculateMonthlyPayment_formula_witness:
  "calculateMonthlyPayment 1200 12 1 =
     Some (1200 * (1 / 100) * (1 + 1 / 100) ^ 12 / ((1 + 1 / 100) ^ 12 - 1)) \<and>
   calculateMonthlyPayment 1200 0 1 = Some 100"
  using calculateMonthlyPayment_formula[of 1200 1 12]
        calculateMonthlyPayment_formula[of 1200 1 0]
  by (simp add: Let_def)

subsection \<open>One turn of the overpayment loop\<close>

lemma overpaymentLoop_stop:
  "\<not> (0 < b \<and> m < n) \<Longrightarrow>
   overpaymentLoop r pay ov n b m t = \<lparr>op_totalInterest = t, op_months = m\<rparr>"
  by (subst overpaymentLoop.simps) auto

lemma overpaymentLoop_step:
  "0 < b \<Longrightarrow> m < n \<Longrightarrow> 0 \<le> b - (pay - b * r + ov) \<Longrightarrow>
   overpaymentLoop r pay ov n b m t =
   overpaymentLoop r pay ov n (b - (pay - b * r + ov)) (Suc m) (t + b * r)"
  by (subst overpaymentLoop.simps) (simp add: Let_def)

lemma overpaymentLoop_overshoot:
  "0 < b \<Longrightarrow> m < n \<Longrightarrow> b - (pay - b * r + ov) < 0 \<Longrightarrow>
   overpaymentLoop r pay ov n b m t =
   \<lparr>op_totalInterest = t + b * r + ((pay - b * r + ov) - b), op_months = Suc m\<rparr>"
  by (subst overpaymentLoop.simps) (simp add: Let_def overpaymentLoop_stop)

lemma periodBalances_stop:
  "\<not> (0 < b \<and> m < n) \<Longrightarrow> periodBalances r pay ov n b m = []"
  by (subst periodBalances.simps) auto

lemma periodBalances_step:
  "0 < b \<Longrightarrow> m < n \<Longrightarrow> 0 \<le> b - (pay - b * r + ov) \<Longrightarrow>
   periodBalances r pay ov n b m =
   b # periodBalances r pay ov n (b - (pay - b * r + ov)) (Suc m)"
  by (subst periodBalances.simps) (simp add: Let_def)

lemma periodBalances_overshoot:
  "0 < b \<Longrightarrow> m < n \<Longrightarrow> b - (pay - b * r + ov) < 0 \<Longrightarrow>
   periodBalances r pay ov n b m = [b]"
  by (subst periodBalances.simps) (simp add: Let_def periodBalances_stop)

text \<open>
  The loop never runs beyond the cap of \<open>originalTermMonths\<close> periods, and the total it
  reports is never less than the interest of the periods it ran: the amount by which the
  balance of the last period went below zero, when it did, is added on top.
\<close>

lemma overpaymentLoop_months_le:
  "m \<le> n \<Longrightarrow> op_months (overpaymentLoop r pay ov n b m t) \<le> n"
proof (induction r pay ov n b m t rule: overpaymentLoop.induct)
  case (1 r pay ov n b m t)
  show ?case
  proof (cases "0 < b \<and> m < n")
    case False
    with "1.prems" show ?thesis by (simp add: overpaymentLoop_stop)
  next
    case True
    then have le: "Suc m \<le> n" by simp
    show ?thesis
    proof (cases "b - (pay - b * r + ov) < 0")
      case True
      with \<open>0 < b \<and> m < n\<close> show ?thesis by (simp add: overpaymentLoop_overshoot)
    next
      case False
      with True "1.IH"(2)[OF True refl refl refl refl False le] show ?thesis
        by (simp add: overpaymentLoop_step)
    qed
  qed
qed

lemma overpaymentLoop_interest_ge:
  "op_totalInterest (overpaymentLoop r pay ov n b m t) \<ge>
     t + (\<Sum>x\<leftarrow>periodBalances r pay ov n b m. x * r)"
proof (induction r pay ov n b m t rule: overpaymentLoop.induct)
  case (1 r pay ov n b m t)
  show ?case
  proof (cases "0 < b \<and> m < n")
    case False
    then show ?thesis by (simp add: overpaymentLoop_stop periodBalances_stop)
  next
    case True
    show ?thesis
    proof (cases "b - (pay - b * r + ov) < 0")
      case neg: True
      with True show ?thesis
        by (simp add: overpaymentLoop_overshoot periodBalances_overshoot)
    next
      case False
      with True "1.IH"(2)[OF True refl refl refl refl False] show ?thesis
        by (simp add: overpaymentLoop_step periodBalances_step add.assoc)
    qed
  qed
qed

subsection \<open>The schedule without overpayment\<close>

text \<open>
  If the balances \<open>B m, B (m + 1), \<dots>, B n\<close> follow the recurrence of the loop with no
  overpayment, stay positive before period \<open>n\<close> and do not fall below zero at \<open>n\<close>,
  the loop runs to period \<open>n\<close> and never takes the overshoot branch.
\<close>

lemma overpaymentLoop_schedule:
  assumes pos: "\<And>k. k < n \<Longrightarrow> 0 < B k"
    and nonneg: "0 \<le> B n"
    and rec: "\<And>k. k < n \<Longrightarrow> B (Suc k) = B k - (pay - B k * r + 0)"
    and m: "m \<le> n"
  shows "overpaymentLoop r pay 0 n (B m) m t =
           \<lparr>op_totalInterest = t + real (n - m) * pay - (B m - B n), op_months = n\<rparr>"
  using m
proof (induction "n - m" arbitrary: m t)
  case 0
  then have "m = n" by simp
  then show ?case by (simp add: overpaymentLoop_stop)
next
  case (Suc k)
  then have lt: "m < n" and k: "k = n - Suc m" and le: "Suc m \<le> n" by auto
  have nn: "0 \<le> B (Suc m)"
  proof (cases "Suc m = n")
    case True
    then show ?thesis using nonneg by simp
  next
    case False
    with le have "Suc m < n" by simp
    from pos[OF this] show ?thesis by simp
  qed
  have "overpaymentLoop r pay 0 n (B m) m t =
        overpaymentLoop r pay 0 n (B (Suc m)) (Suc m) (t + B m * r)"
    using overpaymentLoop_step[of "B m" m n pay r 0 t] pos[OF lt] lt nn rec[OF lt] by simp
  also have "\<dots> = \<lparr>op_totalInterest =
                        t + B m * r + real (n - Suc m) * pay - (B (Suc m) - B n),
                      op_months = n\<rparr>"
    using Suc.hyps(1)[OF k le] by simp
  also have "t + B m * r + real (n - Suc m) * pay - (B (Suc m) - B n)
              = t + real (n - m) * pay - (B m - B n)"
    using rec[OF lt] lt by (simp add: of_nat_diff algebra_simps)
  finally show ?case .
qed

lemma schedule_positive_rate:
  fixes P q :: real
  assumes P: "0 < P" and q: "0 < q" and n: "0 < n"
  shows "overpaymentLoop q (P * q * (1 + q) ^ n / ((1 + q) ^ n - 1)) 0 n P 0 0 =
           \<lparr>op_totalInterest = P * q * (1 + q) ^ n / ((1 + q) ^ n - 1) * real n - P,
             op_months = n\<rparr>"
proof -
  define D where "D = (1 + q) ^ n - 1"
  define pay where "pay = P * q * (1 + q) ^ n / D"
  define B where "B k = P * ((1 + q) ^ n - (1 + q) ^ k) / D" for k
  have D0: "0 < D" using growth_power_gt_one[OF q n] by (simp add: D_def)
  have pos: "0 < B k" if "k < n" for k
  proof -
    have "(1 + q) ^ k < (1 + q) ^ n"
      by (rule power_strict_increasing) (use that q in simp_all)
    then show ?thesis using P D0 by (simp add: B_def)
  qed
  have Bn: "B n = 0" by (simp add: B_def)
  have B0: "B 0 = P" using D0 by (simp add: B_def D_def)
  have rec: "B (Suc k) = B k - (pay - B k * q + 0)" for k
    using D0 by (simp add: B_def pay_def field_simps)
  have "overpaymentLoop q pay 0 n (B 0) 0 0 =
          \<lparr>op_totalInterest = 0 + real (n - 0) * pay - (B 0 - B n), op_months = n\<rparr>"
    by (rule overpaymentLoop_schedule) (use pos Bn rec in simp_all)
  then show ?thesis by (simp add: B0 Bn pay_def D_def mult.commute)
qed

lemma schedule_zero_rate:
  fixes P :: real
  assumes P: "0 < P" and n: "0 < n"
  shows "overpaymentLoop 0 (P / real n) 0 n P 0 0 =
           \<lparr>op_totalInterest = P / real n * real n - P, op_months = n\<rparr>"
proof -
  define B where "B k = P * (real n - real k) / real n" for k
  have pos: "0 < B k" if "k < n" for k using that P n by (simp add: B_def)
  have Bn: "B n = 0" by (simp add: B_def)
  have B0: "B 0 = P" using n by (simp add: B_def)
  have rec: "B (Suc k) = B k - (P / real n - B k * 0 + 0)" for k
    using n by (simp add: B_def field_simps)
  have "overpaymentLoop 0 (P / real n) 0 n (B 0) 0 0 =
          \<lparr>op_totalInterest = 0 + real (n - 0) * (P / real n) - (B 0 - B n), op_months = n\<rparr>"
    by (rule overpaymentLoop_schedule) (use pos Bn rec in simp_all)
  then show ?thesis by (simp add: B0 Bn mult.commute)
qed

text \<open>
  Claim C4. For a loan amount \<open>P > 0\<close>, an annual rate \<open>\<ge> 0\<close> and a term of at least
  one year, \<open>calculateMonthlyPayment\<close> returns a payment, and
  \<open>calculateWithOverpayment\<close> run with that payment and an overpayment of \<open>0\<close> goes
  through all \<open>n = loanTermYears * 12\<close> periods and reports the total interest
  \<open>payment * n - P\<close>, the closed form of \<open>calculateMortgage\<close>. The equality is exact
  in real arithmetic; the tolerance of the claim is the rounding of the doubles.
\<close>

theorem zero_overpayment_matches_closed_form:
  assumes P: "0 < P" and r: "0 \<le> interestRt" and n: "0 < loanTermYears"
  shows "\<exists>pay. calculateMonthlyPayment P interestRt loanTermYears = Some pay \<and>
           calculateWithOverpayment P (interestRt / 100 / 12) pay 0 (loanTermYears * 12) =
             \<lparr>op_totalInterest = pay * real (loanTermYears * 12) - P,
               op_months = loanTermYears * 12\<rparr>"
proof (cases "interestRt = 0")
  case True
  have "0 < loanTermYears * 12" using n by simp
  from schedule_zero_rate[OF P this] payment_zero_rate[of interestRt loanTermYears P] True n
  show ?thesis by (simp add: calculateWithOverpayment_def)
next
  case False
  with r have rpos: "0 < interestRt" by simp
  then have q: "0 < interestRt / 100 / 12" by simp
  have m: "0 < loanTermYears * 12" using n by simp
  from schedule_positive_rate[OF P q m] payment_positive_rate[OF rpos n, of P]
  show ?thesis by (simp add: calculateWithOverpayment_def)
qed

theorem zero_overpayment_matches_closed_form_witness:
  "\<exists>pay. calculateMonthlyPayment 1200 12 1 = Some pay \<and>
     calculateWithOverpayment 1200 (12 / 100 / 12) pay 0 (1 * 12) =
       \<lparr>op_totalInterest = pay * real (1 * 12) - 1200, op_months = 1 * 12\<rparr>"
  using zero_overpayment_matches_closed_form[of 1200 12 1] by simp

text \<open>
  Claim C5, in exact arithmetic. For a principal \<open>P > 0\<close>, an annual rate \<open>\<ge> 0\<close> and
  a term of at least one year, the payment that the formula of
  \<open>calculateMonthlyPayment\<close> gives in exact real arithmetic, times the number of periods
  \<open>n = loanTermYears * 12\<close>, is at least \<open>P\<close>, and equals \<open>P\<close> exactly when the
  periodic rate is \<open>0\<close>. The doubles of the source meet this only up to their
  rounding; the last section has a loan where the product falls below \<open>P\<close>.
\<close>

theorem payments_cover_principal:
  assumes P: "0 < P" and r: "0 \<le> interestRt" and n: "0 < loanTermYears"
  shows "\<exists>pay. calculateMonthlyPayment P interestRt loanTermYears = Some pay
           \<and> P \<le> pay * real (loanTermYears * 12)
           \<and> (pay * real (loanTermYears * 12) = P \<longleftrightarrow> interestRt / 100 / 12 = 0)"
proof (cases "interestRt = 0")
  case True
  with n show ?thesis by (simp add: payment_zero_rate)
next
  case False
  with r have rpos: "0 < interestRt" by simp
  define q where "q = interestRt / 100 / 12"
  define m where "m = loanTermYears * 12"
  have q0: "0 < q" using rpos by (simp add: q_def)
  have m0: "0 < m" using n by (simp add: m_def)
  define D where "D = (1 + q) ^ m - 1"
  have D0: "0 < D" using growth_power_gt_one[OF q0 m0] by (simp add: D_def)
  have lt: "D < real m * q * (1 + q) ^ m"
    using growth_power_strict_bound[OF q0 m0] by (simp add: D_def)
  have pay: "calculateMonthlyPayment P interestRt loanTermYears =
               Some (P * q * (1 + q) ^ m / D)"
    using payment_positive_rate[OF rpos n] by (simp add: q_def m_def D_def)
  have eq: "P * q * (1 + q) ^ m / D * real m = P * (real m * q * (1 + q) ^ m) / D"
    by (simp add: mult_ac)
  have "P * D < P * (real m * q * (1 + q) ^ m)"
    using lt P by (rule mult_strict_left_mono)
  then have "P < P * (real m * q * (1 + q) ^ m) / D"
    using D0 by (simp add: pos_less_divide_eq)
  then have gt: "P < P * q * (1 + q) ^ m / D * real m" by (simp only: eq)
  have "q \<noteq> 0" using q0 by simp
  with gt pay show ?thesis unfolding q_def[symmetric] m_def[symmetric] by auto
qed

theorem payments_cover_principal_witness:
  "\<exists>pay. calculateMonthlyPayment 1200 12 1 = Some pay
     \<and> 1200 \<le> pay * real (1 * 12)
     \<and> (pay * real (1 * 12) = 1200 \<longleftrightarrow> (12::real) / 100 / 12 = 0)"
  using payments_cover_principal[of 1200 12 1] by simp

subsection \<open>The final period with an overpayment\<close>

text \<open>
  Claim C1, at a loan of 1000 with a monthly rate of 1 per cent, a regular payment of 100,
  an overpayment of 2000 and a cap of 12 months. The loan is paid off in the first period,
  whose starting balance is 1000, so the interest of all periods is \<open>1000 * 0.01 = 10\<close>.
  The source reports 1100: the interest of 10 plus the 1090 by which the payment of 2100
  exceeds the balance left after interest.
\<close>

theorem overshoot_added_to_total_interest:
  "calculateWithOverpayment 1000 (1 / 100) 100 2000 12 =
     \<lparr>op_totalInterest = 1100, op_months = 1\<rparr> \<and>
   periodBalances (1 / 100) 100 2000 12 1000 0 = [1000] \<and>
   (\<Sum>b\<leftarrow>periodBalances (1 / 100) 100 2000 12 1000 0. b * (1 / 100)) = 10"
  by (simp add: calculateWithOverpayment_def overpaymentLoop_overshoot
        periodBalances_overshoot)

text \<open>
  Claim C3, at a home price of 1200 with no deposit, a rate of 0, a term of one year and a
  monthly overpayment of 2000. The scheduled payment is 100 and the interest without
  overpayment is \<open>100 * 12 - 1200 = 0\<close>. With the overpayment the loop stops after one
  period, within the cap of 12, but reports a total interest of 900, so that
  \<open>interestSaved\<close> is \<open>- 900\<close>.
\<close>

theorem overpayment_interest_exceeds_baseline:
  "map_option (\<lambda>res. (principalAndInterest res, totalInterest res,
                        totalInterestWithOverpayment res, interestSaved res,
                        newLoanTermMonths res))
     (calculateMortgage \<lparr>homePrice = 1200, downPayment = 0, loanTerm = 1,
                          interestRate = 0, monthlyOverpayment = 2000\<rparr>)
   = Some (100, 0, 900, - 900, 1)"
  by (simp add: calculateMortgage_def payment_positive_rate payment_zero_rate jdiv_def
        calculateWithOverpayment_def overpaymentLoop_overshoot Let_def)

section \<open>Properties of the pension projection\<close>

subsection \<open>Invariants of the projection loop\<close>

text \<open>
  An invariant that every run of the loop body carries from loop year \<open>j\<close> to
  \<open>j + 1\<close> holds, at \<open>yearsToRetirement + 1\<close>, for the variables the loop ends with.
\<close>

lemma projectionLoop_invariant:
  assumes init: "I yr v"
    and le: "yr \<le> Suc Y"
    and step: "\<And>j w. I j w \<Longrightarrow> j \<le> Y \<Longrightarrow> I (Suc j) (projectionYear fd cy j w)"
  shows "I (Suc Y) (projectionLoop fd cy Y yr v)"
  using init le
proof (induction "Suc Y - yr" arbitrary: yr v)
  case 0
  then have "yr = Suc Y" by simp
  with "0.prems"(1) show ?case by (simp add: projectionLoop.simps)
next
  case (Suc d)
  then have yr: "yr \<le> Y" and d: "d = Suc Y - Suc yr" by auto
  have "I (Suc Y) (projectionLoop fd cy Y (Suc yr) (projectionYear fd cy yr v))"
    using Suc.hyps(1)[OF d step[OF Suc.prems(1) yr]] yr by simp
  with yr show ?case by (subst projectionLoop.simps) simp
qed

lemma projectionYear_breakdown_length:
  "length (v_yearlyBreakdown (projectionYear fd cy j w)) = Suc (length (v_yearlyBreakdown w))"
  by (simp add: projectionYear_def Let_def)

lemma projectionLoop_length:
  "length (v_yearlyBreakdown (projectionLoop fd cy Y 0 (initialVars fd))) = Suc Y"
  by (rule projectionLoop_invariant[where I = "\<lambda>j w. length (v_yearlyBreakdown w) = j"])
     (simp_all add: initialVars_def projectionYear_breakdown_length)

lemma calculateProjection_try_valid:
  assumes "currentAge fd < retirementAge fd"
  shows "calculateProjection_try cy fd =
     (let v = projectionLoop fd cy (nat (retirementAge fd - currentAge fd)) 0 (initialVars fd)
      in Inr \<lparr>finalPensionNominal = v_pensionValue v,
              finalPensionReal = realPensionValue (last (v_yearlyBreakdown v)),
              totalContributions = v_totalContributions v,
              totalEmployerContributions = v_totalEmployerContributions v,
              totalInvestmentGrowth = v_totalGrowth v,
              yearlyBreakdown = v_yearlyBreakdown v\<rparr>)"
proof -
  have "v_yearlyBreakdown (projectionLoop fd cy (nat (retirementAge fd - currentAge fd)) 0
          (initialVars fd)) \<noteq> []"
    using projectionLoop_length[of fd cy "nat (retirementAge fd - currentAge fd)"] by auto
  with assms show ?thesis
    by (simp add: calculateProjection_try_def Let_def split: list.splits)
qed

subsection \<open>The yearly breakdown\<close>

lemma projectionLoop_breakdown:
  fixes fd :: PensionFormData and cy :: int and Y :: nat
  defines "bd \<equiv> v_yearlyBreakdown (projectionLoop fd cy Y 0 (initialVars fd))"
  shows "length bd = Suc Y"
    and "pensionValue (bd ! 0) = currentPension fd \<and> annualGrowth (bd ! 0) = 0 \<and>
         annualContribution (bd ! 0) = 0 \<and> annualEmployerContribution (bd ! 0) = 0 \<and>
         realPensionValue (bd ! 0) = Some (currentPension fd)"
    and "\<And>k. 0 < k \<Longrightarrow> k \<le> Y \<Longrightarrow>
         annualGrowth (bd ! k) = pensionValue (bd ! (k - 1)) * (weightedReturn fd / 100) \<and>
         pensionValue (bd ! k) =
           pensionValue (bd ! (k - 1)) + annualGrowth (bd ! k) +
           monthlyContribution fd * 12 + employerContribution fd * 12 \<and>
         realPensionValue (bd ! k) =
           jdiv (pensionValue (bd ! k)) ((1 + inflationRate fd / 100) ^ k)"
proof -
  define first where "first e \<longleftrightarrow>
      pensionValue e = currentPension fd \<and> annualGrowth e = 0 \<and>
      annualContribution e = 0 \<and> annualEmployerContribution e = 0 \<and>
      realPensionValue e = Some (currentPension fd)" for e :: YearEntry
  define later where "later k p e \<longleftrightarrow>
      annualGrowth e = pensionValue p * (weightedReturn fd / 100) \<and>
      pensionValue e = pensionValue p + annualGrowth e +
        monthlyContribution fd * 12 + employerContribution fd * 12 \<and>
      realPensionValue e = jdiv (pensionValue e) ((1 + inflationRate fd / 100) ^ k)"
    for k :: nat and p e :: YearEntry
  define I where "I j w \<longleftrightarrow>
      length (v_yearlyBreakdown w) = j \<and>
      (j = 0 \<longrightarrow> v_pensionValue w = currentPension fd) \<and>
      (0 < j \<longrightarrow> pensionValue (v_yearlyBreakdown w ! (j - 1)) = v_pensionValue w \<and>
                 first (v_yearlyBreakdown w ! 0)) \<and>
      (\<forall>k. 0 < k \<and> k < j \<longrightarrow>
           later k (v_yearlyBreakdown w ! (k - 1)) (v_yearlyBreakdown w ! k))"
    for j :: nat and w :: ProjectionVars
  have init: "I 0 (initialVars fd)" by (simp add: I_def initialVars_def)
  have step: "I (Suc j) (projectionYear fd cy j w)" if "I j w" for j w
  proof (cases "j = 0")
    case True
    with that show ?thesis
      by (simp add: I_def projectionYear_def Let_def first_def jdiv_def)
  next
    case False
    then have j: "0 < j" by simp
    from that have len: "length (v_yearlyBreakdown w) = j"
      and last: "pensionValue (v_yearlyBreakdown w ! (j - 1)) = v_pensionValue w"
      and fst: "first (v_yearlyBreakdown w ! 0)"
      and old: "\<And>k. 0 < k \<Longrightarrow> k < j \<Longrightarrow>
                  later k (v_yearlyBreakdown w ! (k - 1)) (v_yearlyBreakdown w ! k)"
      using j by (auto simp: I_def)
    let ?w' = "projectionYear fd cy j w"
    have bd': "v_yearlyBreakdown ?w' = v_yearlyBreakdown w @ [last (v_yearlyBreakdown ?w')]"
      using j by (simp add: projectionYear_def Let_def)
    have keep: "v_yearlyBreakdown ?w' ! k = v_yearlyBreakdown w ! k" if "k < j" for k
      using that len by (subst bd') (simp add: nth_append)
    have new: "v_yearlyBreakdown ?w' ! j = last (v_yearlyBreakdown ?w')"
      using len by (subst bd') (simp add: nth_append)
    have newprops: "later j (v_yearlyBreakdown w ! (j - 1)) (last (v_yearlyBreakdown ?w'))"
      and pv: "pensionValue (last (v_yearlyBreakdown ?w')) = v_pensionValue ?w'"
      using j last
      by (simp_all add: later_def projectionYear_def Let_def annualContributionOf_def
            annualEmployerContributionOf_def)
    have len': "length (v_yearlyBreakdown ?w') = Suc j"
      using len by (simp add: projectionYear_breakdown_length)
    have all: "later k (v_yearlyBreakdown ?w' ! (k - 1)) (v_yearlyBreakdown ?w' ! k)"
      if "0 < k" "k < Suc j" for k
    proof (cases "k = j")
      case True
      with j newprops show ?thesis by (simp add: new keep)
    next
      case False
      with that have "k < j" by simp
      with old[OF that(1) this] show ?thesis by (simp add: keep)
    qed
    show ?thesis
      unfolding I_def using len' pv new fst keep[OF j] all by simp
  qed
  have "I (Suc Y) (projectionLoop fd cy Y 0 (initialVars fd))"
    by (rule projectionLoop_invariant) (use init step in simp_all)
  then have len: "length bd = Suc Y" and f: "first (bd ! 0)"
    and l: "\<And>k. 0 < k \<Longrightarrow> k < Suc Y \<Longrightarrow> later k (bd ! (k - 1)) (bd ! k)"
    by (auto simp: I_def bd_def)
  show "length bd = Suc Y" by (rule len)
  show "pensionValue (bd ! 0) = currentPension fd \<and> annualGrowth (bd ! 0) = 0 \<and>
         annualContribution (bd ! 0) = 0 \<and> annualEmployerContribution (bd ! 0) = 0 \<and>
         realPensionValue (bd ! 0) = Some (currentPension fd)"
    using f by (simp add: first_def)
  show "annualGrowth (bd ! k) = pensionValue (bd ! (k - 1)) * (weightedReturn fd / 100) \<and>
         pensionValue (bd ! k) =
           pensionValue (bd ! (k - 1)) + annualGrowth (bd ! k) +
           monthlyContribution fd * 12 + employerContribution fd * 12 \<and>
         realPensionValue (bd ! k) =
           jdiv (pensionValue (bd ! k)) ((1 + inflationRate fd / 100) ^ k)"
    if "0 < k" "k \<le> Y" for k
    using l[of k] that by (simp add: later_def)
qed

text \<open>
  Claim C6. When the retirement age exceeds the current age the projection is produced,
  with one entry per year from 0 to \<open>yearsToRetirement\<close>. The entry of year 0 carries the
  starting pension with no growth and no contribution. For a year \<open>k > 0\<close> the growth is
  the previous balance times the blended return, the allocation-weighted average
  \<open>stocksAllocation / 100 * stocksReturn + bondsAllocation / 100 * bondsReturn +
  cashAllocation / 100 * cashReturn\<close> of the three returns, itself a percentage and so
  divided by 100, the balance is the previous balance
  plus the growth plus twelve monthly own and twelve monthly employer contributions, and
  the real value is the balance divided by \<open>(1 + inflationRate / 100) ^ k\<close>.
\<close>

theorem projection_per_year:
  assumes "currentAge fd < retirementAge fd"
    and "0 < k" and "k \<le> nat (retirementAge fd - currentAge fd)"
  shows "\<exists>res. calculateProjection_try cy fd = Inr res \<and>
           length (yearlyBreakdown res) = nat (retirementAge fd - currentAge fd) + 1 \<and>
           pensionValue (yearlyBreakdown res ! 0) = currentPension fd \<and>
           annualGrowth (yearlyBreakdown res ! 0) = 0 \<and>
           annualContribution (yearlyBreakdown res ! 0) = 0 \<and>
           annualEmployerContribution (yearlyBreakdown res ! 0) = 0 \<and>
           realPensionValue (yearlyBreakdown res ! 0) = Some (currentPension fd) \<and>
           annualGrowth (yearlyBreakdown res ! k) =
             pensionValue (yearlyBreakdown res ! (k - 1)) *
             ((stocksAllocation fd / 100 * stocksReturn fd +
               bondsAllocation fd / 100 * bondsReturn fd +
               cashAllocation fd / 100 * cashReturn fd) / 100) \<and>
           pensionValue (yearlyBreakdown res ! k) =
             pensionValue (yearlyBreakdown res ! (k - 1)) + annualGrowth (yearlyBreakdown res ! k) +
             monthlyContribution fd * 12 + employerContribution fd * 12 \<and>
           realPensionValue (yearlyBreakdown res ! k) =
             jdiv (pensionValue (yearlyBreakdown res ! k)) ((1 + inflationRate fd / 100) ^ k)"
  using projectionLoop_breakdown(1)[of fd cy "nat (retirementAge fd - currentAge fd)"]
        projectionLoop_breakdown(2)[of fd cy "nat (retirementAge fd - currentAge fd)"]
        projectionLoop_breakdown(3)[where fd = fd and cy = cy, OF assms(2,3)]
  by (simp add: calculateProjection_try_valid[OF assms(1)] Let_def weightedReturn_def)

theorem projection_per_year_witness:
  "\<exists>res. calculateProjection_try 2025 defaultFormData = Inr res \<and>
           length (yearlyBreakdown res) = 39 \<and>
           pensionValue (yearlyBreakdown res ! 0) = 50000 \<and>
           annualGrowth (yearlyBreakdown res ! 0) = 0 \<and>
           annualContribution (yearlyBreakdown res ! 0) = 0 \<and>
           annualEmployerContribution (yearlyBreakdown res ! 0) = 0 \<and>
           realPensionValue (yearlyBreakdown res ! 0) = Some 50000 \<and>
           annualGrowth (yearlyBreakdown res ! 1) = 50000 * (5.65 / 100) \<and>
           annualGrowth (yearlyBreakdown res ! 1) = 2825 \<and>
           pensionValue (yearlyBreakdown res ! 1) = 62425 \<and>
           realPensionValue (yearlyBreakdown res ! 1) = Some (62425 / 1.02)"
  using projection_per_year[of defaultFormData 1 2025]
  by (auto simp add: defaultFormData_def jdiv_def)

subsection \<open>Asset classes\<close>

lemma projectionYear_asset_sum:
  assumes total: "stocksAllocation fd + bondsAllocation fd + cashAllocation fd = 100"
    and old: "\<forall>e\<in>set (v_yearlyBreakdown w). stocks e + bonds e + cash e = pensionValue e"
  shows "\<forall>e\<in>set (v_yearlyBreakdown (projectionYear fd cy j w)).
           stocks e + bonds e + cash e = pensionValue e"
proof -
  have split: "p * stocksAllocation fd / 100 + p * bondsAllocation fd / 100 +
               p * cashAllocation fd / 100 = p" for p :: real
  proof -
    have "p * stocksAllocation fd / 100 + p * bondsAllocation fd / 100 +
          p * cashAllocation fd / 100 =
          p * (stocksAllocation fd + bondsAllocation fd + cashAllocation fd) / 100"
      by (simp add: algebra_simps add_divide_distrib)
    then show ?thesis by (simp add: total)
  qed
  show ?thesis using old by (auto simp: projectionYear_def Let_def split)
qed

text \<open>
  Claim C8. When the three allocation percentages sum to 100 and the projection is
  produced, the stocks, bonds and cash values of every year \<open>k\<close> of the breakdown add up
  to the nominal pension value of that year (exactly, in real arithmetic).
\<close>

theorem asset_values_sum_to_balance:
  assumes total: "stocksAllocation fd + bondsAllocation fd + cashAllocation fd = 100"
    and ages: "currentAge fd < retirementAge fd"
    and k: "k \<le> nat (retirementAge fd - currentAge fd)"
  shows "\<exists>res. calculateProjection_try cy fd = Inr res \<and>
           k < length (yearlyBreakdown res) \<and>
           stocks (yearlyBreakdown res ! k) + bonds (yearlyBreakdown res ! k) +
             cash (yearlyBreakdown res ! k) = pensionValue (yearlyBreakdown res ! k)"
proof -
  let ?Y = "nat (retirementAge fd - currentAge fd)"
  let ?v = "projectionLoop fd cy ?Y 0 (initialVars fd)"
  have "\<forall>e\<in>set (v_yearlyBreakdown ?v). stocks e + bonds e + cash e = pensionValue e"
    by (rule projectionLoop_invariant[where
          I = "\<lambda>j w. \<forall>e\<in>set (v_yearlyBreakdown w).
                       stocks e + bonds e + cash e = pensionValue e"])
       (simp_all add: initialVars_def projectionYear_asset_sum[OF total])
  moreover have len: "k < length (v_yearlyBreakdown ?v)"
    using k by (simp add: projectionLoop_length)
  ultimately have "stocks (v_yearlyBreakdown ?v ! k) + bonds (v_yearlyBreakdown ?v ! k) +
      cash (v_yearlyBreakdown ?v ! k) = pensionValue (v_yearlyBreakdown ?v ! k)"
    by simp
  with len show ?thesis
    by (simp add: calculateProjection_try_valid[OF ages] Let_def)
qed

theorem asset_values_sum_to_balance_witness:
  "\<exists>res. calculateProjection_try 2025 defaultFormData = Inr res \<and>
           38 < length (yearlyBreakdown res) \<and>
           stocks (yearlyBreakdown res ! 38) + bonds (yearlyBreakdown res ! 38) +
             cash (yearlyBreakdown res ! 38) = pensionValue (yearlyBreakdown res ! 38)"
  using asset_values_sum_to_balance[of defaultFormData 38 2025]
  by (simp add: defaultFormData_def)

subsection \<open>Totals\<close>

lemma projectionYear_totals:
  assumes "v_pensionValue w =
             v_totalContributions w + v_totalEmployerContributions w + v_totalGrowth w"
    and "v_totalContributions w = currentPension fd + real (j - 1) * (monthlyContribution fd * 12)"
  shows "v_pensionValue (projectionYear fd cy j w) =
           v_totalContributions (projectionYear fd cy j w) +
           v_totalEmployerContributions (projectionYear fd cy j w) +
           v_totalGrowth (projectionYear fd cy j w)"
    and "v_totalContributions (projectionYear fd cy j w) =
           currentPension fd + real j * (monthlyContribution fd * 12)"
  using assms
  by (cases j; simp add: projectionYear_def Let_def annualContributionOf_def algebra_simps)+

text \<open>
  Claim C10, in exact arithmetic. When the projection is produced, the final nominal
  pension value is, in exact real arithmetic, the sum of \<open>totalContributions\<close>,
  \<open>totalEmployerContributions\<close> and \<open>totalInvestmentGrowth\<close>, and
  \<open>totalContributions\<close> is the starting pension plus the own contributions of all
  \<open>yearsToRetirement\<close> years: the reported contributions include the initial pot. The
  four accumulators of the source are doubles, each rounded on its own, so that there the
  equality holds only up to rounding; the last section has a projection where it fails.
\<close>

theorem final_value_is_sum_of_totals:
  assumes ages: "currentAge fd < retirementAge fd"
  shows "\<exists>res. calculateProjection_try cy fd = Inr res \<and>
           finalPensionNominal res =
             totalContributions res + totalEmployerContributions res +
             totalInvestmentGrowth res \<and>
           totalContributions res =
             currentPension fd +
             real (nat (retirementAge fd - currentAge fd)) * (monthlyContribution fd * 12)"
proof -
  let ?Y = "nat (retirementAge fd - currentAge fd)"
  let ?v = "projectionLoop fd cy ?Y 0 (initialVars fd)"
  have "v_pensionValue ?v =
          v_totalContributions ?v + v_totalEmployerContributions ?v + v_totalGrowth ?v \<and>
        v_totalContributions ?v =
          currentPension fd + real (Suc ?Y - 1) * (monthlyContribution fd * 12)"
    by (rule projectionLoop_invariant[where
          I = "\<lambda>j w. v_pensionValue w =
                       v_totalContributions w + v_totalEmployerContributions w +
                       v_totalGrowth w \<and>
                     v_totalContributions w =
                       currentPension fd + real (j - 1) * (monthlyContribution fd * 12)"])
       (simp_all add: initialVars_def projectionYear_totals)
  then show ?thesis
    by (simp add: calculateProjection_try_valid[OF ages] Let_def)
qed

theorem final_value_is_sum_of_totals_witness:
  "\<exists>res. calculateProjection_try 2025 defaultFormData = Inr res \<and>
           finalPensionNominal res =
             totalContributions res + totalEmployerContributions res +
             totalInvestmentGrowth res \<and>
           totalContributions res = 50000 + 38 * (500 * 12)"
  using final_value_is_sum_of_totals[of defaultFormData 2025]
  by (simp add: defaultFormData_def)

subsection \<open>The allocation gate\<close>

text \<open>
  Claim C7, as the code has it. When the three allocation percentages do not sum to 100
  the effect only records the validation message: \<open>calculateProjection\<close> is not run
  and \<open>results\<close> is left as it was. When they sum to 100 and, in addition, the
  retirement age exceeds the current age, the message is cleared and the projection is
  stored in \<open>results\<close>.
\<close>

theorem allocation_gate:
  "(stocksAllocation (ps_formData st) + bondsAllocation (ps_formData st) +
      cashAllocation (ps_formData st) \<noteq> 100 \<longrightarrow>
      allocationEffect cy st =
        st\<lparr>ps_allocationError := Some (AllocationMustTotal100
              (stocksAllocation (ps_formData st) + bondsAllocation (ps_formData st) +
               cashAllocation (ps_formData st)))\<rparr>) \<and>
   (stocksAllocation (ps_formData st) + bondsAllocation (ps_formData st) +
      cashAllocation (ps_formData st) = 100 \<and>
    currentAge (ps_formData st) < retirementAge (ps_formData st) \<longrightarrow>
      ps_allocationError (allocationEffect cy st) = None \<and>
      (\<exists>res. calculateProjection_try cy (ps_formData st) = Inr res \<and>
             ps_results (allocationEffect cy st) = Some res))"
proof (intro conjI impI)
  assume "stocksAllocation (ps_formData st) + bondsAllocation (ps_formData st) +
      cashAllocation (ps_formData st) \<noteq> 100"
  then show "allocationEffect cy st =
        st\<lparr>ps_allocationError := Some (AllocationMustTotal100
              (stocksAllocation (ps_formData st) + bondsAllocation (ps_formData st) +
               cashAllocation (ps_formData st)))\<rparr>"
    by (simp add: allocationEffect_def Let_def)
next
  assume a: "stocksAllocation (ps_formData st) + bondsAllocation (ps_formData st) +
      cashAllocation (ps_formData st) = 100 \<and>
    currentAge (ps_formData st) < retirementAge (ps_formData st)"
  then have ages: "currentAge (ps_formData st) < retirementAge (ps_formData st)" by simp
  from a show "ps_allocationError (allocationEffect cy st) = None"
    by (simp add: allocationEffect_def calculateProjection_def Let_def
          calculateProjection_try_valid[OF ages])
  from a show "\<exists>res. calculateProjection_try cy (ps_formData st) = Inr res \<and>
             ps_results (allocationEffect cy st) = Some res"
    by (simp add: allocationEffect_def calculateProjection_def Let_def
          calculateProjection_try_valid[OF ages])
qed

theorem allocation_gate_witness:
  "allocationEffect 2025 (initialState\<lparr>ps_formData := defaultFormData\<lparr>cashAllocation := 5\<rparr>\<rparr>) =
     initialState\<lparr>ps_formData := defaultFormData\<lparr>cashAllocation := 5\<rparr>,
                  ps_allocationError := Some (AllocationMustTotal100 95)\<rparr> \<and>
   ps_allocationError (allocationEffect 2025 initialState) = None \<and>
   (\<exists>res. calculateProjection_try 2025 defaultFormData = Inr res \<and>
          ps_results (allocationEffect 2025 initialState) = Some res)"
  using allocation_gate[of "initialState\<lparr>ps_formData := defaultFormData\<lparr>cashAllocation := 5\<rparr>\<rparr>" 2025]
        allocation_gate[of initialState 2025]
  by (simp add: initialState_def defaultFormData_def)

text \<open>
  With allocations of 70, 20 and 10 but a current age of 70 above the retirement age of
  68, the gate is passed and \<open>calculateProjection\<close> runs, yet it throws and no projection
  is stored.
\<close>

theorem allocation_total_100_without_projection:
  "stocksAllocation (defaultFormData\<lparr>currentAge := 70\<rparr>) +
     bondsAllocation (defaultFormData\<lparr>currentAge := 70\<rparr>) +
     cashAllocation (defaultFormData\<lparr>currentAge := 70\<rparr>) = 100 \<and>
   calculateProjection_try 2025 (defaultFormData\<lparr>currentAge := 70\<rparr>) = Inl RetirementAgeError \<and>
   ps_results (allocationEffect 2025
     (initialState\<lparr>ps_formData := defaultFormData\<lparr>currentAge := 70\<rparr>\<rparr>)) = None"
  by (simp add: allocationEffect_def calculateProjection_def calculateProjection_try_def
        initialState_def defaultFormData_def Let_def)

section \<open>Properties of the purchasing-power calculator\<close>

subsection \<open>The table of rates\<close>

lemma earliestYear_eq: "earliestYear = 1980"
  by (simp add: earliestYear_def ukInflationData_def)

lemma table_rates_nonzero: "(y, r) \<in> set ukInflationData \<Longrightarrow> r \<noteq> 0"
  by (auto simp: ukInflationData_def)

text \<open>No rate in the table is zero, so \<open>||\<close> only replaces the missing years.\<close>

lemma inflationRateOf_lookup:
  "inflationRateOf y = (case map_of ukInflationData y of None \<Rightarrow> 2 | Some r \<Rightarrow> r)"
proof (cases "map_of ukInflationData y")
  case None
  then show ?thesis by (simp add: inflationRateOf_def)
next
  case (Some r)
  then have "(y, r) \<in> set ukInflationData" by (rule map_of_SomeD)
  then have "r \<noteq> 0" by (rule table_rates_nonzero)
  with Some show ?thesis by (simp add: inflationRateOf_def)
qed

subsection \<open>The walk over the years\<close>

lemma purchasingLoop_stop:
  "ve < y \<Longrightarrow> purchasingLoop ve y cur bd = bd"
  by (subst purchasingLoop.simps) simp

lemma purchasingLoop_step:
  "y \<le> ve \<Longrightarrow> purchasingLoop ve y cur bd =
     purchasingLoop ve (y + 1)
       (if y < ve then cur * (1 + inflationRateOf y / 100) else cur)
       (bd @ [\<lparr>pp_year = y, pp_amount = cur, pp_inflationRate = inflationRateOf y\<rparr>])"
  by (subst purchasingLoop.simps) (simp add: Let_def)

lemma prod_int_split_first:
  fixes f :: "int \<Rightarrow> real"
  assumes "a < b"
  shows "prod f {a..<b} = f a * prod f {a + 1..<b}"
proof -
  have "{a..<b} = insert a {a + 1..<b}" using assms by auto
  then show ?thesis by simp
qed

text \<open>
  The loop started at year \<open>y\<close> with amount \<open>cur\<close> appends one entry per year up to
  \<open>ve\<close>; the entry at offset \<open>i\<close> holds \<open>cur\<close> compounded by the rates of the years
  \<open>y, \<dots>, y + i - 1\<close>.
\<close>

lemma purchasingLoop_walk:
  fixes W :: "int \<Rightarrow> real \<Rightarrow> nat \<Rightarrow> PowerYearEntry"
  defines "W \<equiv> \<lambda>y cur i.
     \<lparr>pp_year = y + int i,
       pp_amount = cur * (\<Prod>z = y..<y + int i. 1 + inflationRateOf z / 100),
       pp_inflationRate = inflationRateOf (y + int i)\<rparr>"
  shows "purchasingLoop ve y cur bd = bd @ map (W y cur) [0..<nat (ve + 1 - y)]"
proof (induction "nat (ve + 1 - y)" arbitrary: y cur bd)
  case 0
  then have "ve < y" by simp
  then show ?case by (simp add: purchasingLoop_stop)
next
  case (Suc n)
  then have le: "y \<le> ve" and n: "n = nat (ve + 1 - (y + 1))" by auto
  let ?cur1 = "if y < ve then cur * (1 + inflationRateOf y / 100) else cur"
  let ?e = "\<lparr>pp_year = y, pp_amount = cur, pp_inflationRate = inflationRateOf y\<rparr>"
  have shift: "W (y + 1) ?cur1 i = W y cur (Suc i)" if "i < n" for i
  proof -
    from that n have "y < ve" by simp
    moreover have "(\<Prod>z = y..<y + int (Suc i). 1 + inflationRateOf z / 100) =
          (1 + inflationRateOf y / 100) *
          (\<Prod>z = y + 1..<y + int (Suc i). 1 + inflationRateOf z / 100)"
      by (rule prod_int_split_first) simp
    moreover have idx: "y + 1 + int i = y + int (Suc i)" by simp
    ultimately show ?thesis
      unfolding W_def idx by (simp add: mult.assoc del: of_nat_Suc)
  qed
  have first: "W y cur 0 = ?e" by (simp add: W_def)
  have "map (W y cur) [0..<Suc n] = W y cur 0 # map (W y cur \<circ> Suc) [0..<n]"
    by (simp only: upt_conv_Cons[of 0 "Suc n"] map_Suc_upt[symmetric] list.map map_map
          zero_less_Suc)
  also have "map (W y cur \<circ> Suc) [0..<n] = map (W (y + 1) ?cur1) [0..<n]"
    using shift by simp
  finally have maps: "map (W y cur) [0..<Suc n] = ?e # map (W (y + 1) ?cur1) [0..<n]"
    using first by simp
  have "purchasingLoop ve y cur bd = purchasingLoop ve (y + 1) ?cur1 (bd @ [?e])"
    using le by (rule purchasingLoop_step)
  also have "\<dots> = (bd @ [?e]) @ map (W (y + 1) ?cur1) [0..<n]"
    using Suc.hyps(1)[OF n] n by simp
  finally show ?case using maps Suc.hyps(2) by simp
qed

text \<open>
  Claim C9, as the code has it. For a start year no earlier than the first year of the
  table, an end year no earlier than the start year and no later than the current year
  (to which the code clamps it), the result is produced with one entry per year from the
  start year to the end year inclusive. The entry of year \<open>startYear + i\<close> holds the
  amount multiplied by \<open>1 + rate / 100\<close> for each of the years before it, and the rate of
  its own year; the adjusted amount is the amount of the last entry, the product over
  all years but the end year. The rate of a year is the one in the table, or 2.0 when the
  table has none. When the start year equals the end year the adjusted amount is the
  original amount and the average annual inflation is 0; the percentage change is 0 for
  a non-zero amount, and not a number (\<open>0 / 0\<close>) for the amount 0.
\<close>

theorem purchasing_power_walk:
  assumes "earliestYear \<le> startYear fd"
    and "startYear fd \<le> endYear fd"
    and "endYear fd \<le> currentYear"
    and "i \<le> nat (endYear fd - startYear fd)"
  shows "\<exists>res. calculatePurchasingPower_try currentYear fd = Inr res \<and>
           length (pp_yearlyBreakdown res) = nat (endYear fd - startYear fd) + 1 \<and>
           pp_year (pp_yearlyBreakdown res ! i) = startYear fd + int i \<and>
           pp_amount (pp_yearlyBreakdown res ! i) =
             amount fd * (\<Prod>z = startYear fd..<startYear fd + int i. 1 + inflationRateOf z / 100) \<and>
           pp_inflationRate (pp_yearlyBreakdown res ! i) = inflationRateOf (startYear fd + int i) \<and>
           adjustedAmount res = pp_amount (last (pp_yearlyBreakdown res)) \<and>
           adjustedAmount res =
             amount fd * (\<Prod>z = startYear fd..<endYear fd. 1 + inflationRateOf z / 100) \<and>
           inflationRateOf y = (case map_of ukInflationData y of None \<Rightarrow> 2 | Some r \<Rightarrow> r) \<and>
           (startYear fd = endYear fd \<longrightarrow>
              adjustedAmount res = amount fd \<and> averageInflation res = Some 0 \<and>
              percentageChange res = (if amount fd = 0 then None else Some 0))"
proof -
  define n where "n = nat (endYear fd - startYear fd)"
  define W where "W = (\<lambda>i. \<lparr>pp_year = startYear fd + int i,
       pp_amount = amount fd * (\<Prod>z = startYear fd..<startYear fd + int i. 1 + inflationRateOf z / 100),
       pp_inflationRate = inflationRateOf (startYear fd + int i)\<rparr>)"
  define bd where "bd = map W [0..<Suc n]"
  have vs: "max earliestYear (min (startYear fd) (endYear fd)) = startYear fd"
    using assms(1,2) by simp
  have ve: "min currentYear (max (endYear fd) (startYear fd)) = endYear fd"
    using assms(2,3) by simp
  have cnt: "nat (endYear fd + 1 - startYear fd) = Suc n"
    using assms(2) by (simp add: n_def)
  have loop: "purchasingLoop (endYear fd) (startYear fd) (amount fd) [] = bd"
    by (simp add: purchasingLoop_walk cnt bd_def W_def)
  have len: "length bd = Suc n" by (simp add: bd_def)
  have ne: "bd \<noteq> []" using len by auto
  have nth: "bd ! j = W j" if "j \<le> n" for j
    using that unfolding bd_def by (simp add: nth_map_upt del: upt_Suc)
  have lst: "last bd = W n"
    using ne len nth[of n] by (simp add: last_conv_nth)
  have endy: "startYear fd + int n = endYear fd" using assms(2) by (simp add: n_def)
  have adj: "pp_amount (last bd) =
      amount fd * (\<Prod>z = startYear fd..<endYear fd. 1 + inflationRateOf z / 100)"
    by (simp add: lst W_def endy)
  have same: "pp_amount (last bd) = amount fd" if "startYear fd = endYear fd"
    using that by (simp add: adj)
  obtain e es where bdc: "bd = e # es" using ne by (cases bd) auto
  let ?res = "\<lparr>originalAmount = amount fd,
      adjustedAmount = pp_amount (last bd),
      percentageChange = map_option (\<lambda>q. q * 100)
         (jdiv (pp_amount (last bd) - amount fd) (amount fd)),
      inflationFactor = jdiv (pp_amount (last bd)) (amount fd),
      averageInflation = map_option (\<lambda>a. a * 100)
         (if endYear fd - startYear fd > 0
          then (case jdiv (pp_amount (last bd)) (amount fd) of
                  None \<Rightarrow> None
                | Some ratio \<Rightarrow>
                    map_option (\<lambda>p. p - 1)
                      (case jdiv 1 (real_of_int (endYear fd - startYear fd)) of
                         None \<Rightarrow> None
                       | Some e \<Rightarrow> jpow ratio e))
          else Some 0),
      pp_yearlyBreakdown = bd\<rparr>"
  have res: "calculatePurchasingPower_try currentYear fd = Inr ?res"
    unfolding calculatePurchasingPower_try_def vs ve loop Let_def
    by (simp add: bdc)
  have ident: "startYear fd = endYear fd \<longrightarrow>
      adjustedAmount ?res = amount fd \<and> averageInflation ?res = Some 0 \<and>
      percentageChange ?res = (if amount fd = 0 then None else Some 0)"
    using same by (simp add: jdiv_def)
  have "length (pp_yearlyBreakdown ?res) = nat (endYear fd - startYear fd) + 1"
    using len by (simp add: n_def)
  moreover have "pp_yearlyBreakdown ?res ! i = W i"
    using nth[of i] assms(4) by (simp add: n_def)
  moreover have "adjustedAmount ?res = pp_amount (last (pp_yearlyBreakdown ?res))" by simp
  moreover have "adjustedAmount ?res =
      amount fd * (\<Prod>z = startYear fd..<endYear fd. 1 + inflationRateOf z / 100)"
    using adj by simp
  ultimately show ?thesis
    using res ident inflationRateOf_lookup[of y]
    by (intro exI[of _ ?res]) (simp add: W_def)
qed

theorem purchasing_power_walk_witness:
  "(\<exists>res. calculatePurchasingPower_try 2024
            \<lparr>amount = 1000, startYear = 2000, endYear = 2002\<rparr> = Inr res \<and>
          length (pp_yearlyBreakdown res) = 3 \<and>
          pp_year (pp_yearlyBreakdown res ! 2) = 2002 \<and>
          pp_amount (pp_yearlyBreakdown res ! 2) = 1000 * ((1 + 3.0 / 100) * (1 + 1.8 / 100)) \<and>
          pp_inflationRate (pp_yearlyBreakdown res ! 2) = 1.7 \<and>
          adjustedAmount res = 1000 * ((1 + 3.0 / 100) * (1 + 1.8 / 100))) \<and>
   inflationRateOf 2030 = 2 \<and>
   (\<exists>res. calculatePurchasingPower_try 2024
            \<lparr>amount = 1000, startYear = 2000, endYear = 2000\<rparr> = Inr res \<and>
          adjustedAmount res = 1000 \<and> averageInflation res = Some 0 \<and>
          percentageChange res = Some 0)"
  using purchasing_power_walk[of "\<lparr>amount = 1000, startYear = 2000, endYear = 2002\<rparr>" 2024 2 2030]
        purchasing_power_walk[of "\<lparr>amount = 1000, startYear = 2000, endYear = 2000\<rparr>" 2024 0 2000]
  by (auto simp add: earliestYear_eq prod_int_split_first inflationRateOf_def
        ukInflationData_def)

text \<open>
  With the amount 0 and the start year equal to the end year, the percentage change is
  \<open>(0 - 0) / 0 * 100\<close>, which is not a number, and so is the inflation factor.
\<close>

theorem zero_amount_percentage_change_nan:
  "calculatePurchasingPower_try 2024 \<lparr>amount = 0, startYear = 2000, endYear = 2000\<rparr> =
     Inr \<lparr>originalAmount = 0, adjustedAmount = 0, percentageChange = None,
          inflationFactor = None, averageInflation = Some 0,
          pp_yearlyBreakdown = [\<lparr>pp_year = 2000, pp_amount = 0, pp_inflationRate = 3\<rparr>]\<rparr>"
  by (simp add: calculatePurchasingPower_try_def earliestYear_eq purchasingLoop.simps Let_def
        jdiv_def inflationRateOf_def ukInflationData_def)

section \<open>Evaluating the double-precision model\<close>

lemma rne_near:
  assumes "of_int k - 1 / 2 < r" and "r < of_int k + 1 / 2"
  shows "rne r = k"
proof (cases "of_int k \<le> r")
  case True
  then have "\<lfloor>r\<rfloor> = k" using assms(2) by (intro floor_unique) auto
  then show ?thesis using assms(2) by (simp add: rne_def Let_def)
next
  case False
  then have f: "\<lfloor>r\<rfloor> = k - 1" using assms(1) by (intro floor_unique) auto
  have "\<not> r - of_int (k - 1) < 1 / 2" "1 / 2 < r - of_int (k - 1)"
    using assms(1) by auto
  then show ?thesis unfolding rne_def Let_def f by simp
qed

lemma rne_tie:
  assumes "r = of_int k + 1 / 2"
  shows "rne r = (if even k then k else k + 1)"
proof -
  have "\<lfloor>r\<rfloor> = k" using assms by (intro floor_unique) auto
  then show ?thesis using assms by (simp add: rne_def Let_def)
qed

lemma find_upto_first:
  assumes "i \<le> e" and "e \<le> j" and "P e" and "\<And>k. i \<le> k \<Longrightarrow> k < e \<Longrightarrow> \<not> P k"
  shows "find P [i..j] = Some e"
  using assms
proof (induction "nat (e - i)" arbitrary: i)
  case 0
  then have "i = e" by simp
  with 0 show ?case by (simp add: upto_rec1[of e j])
next
  case (Suc n)
  then have lt: "i < e" by simp
  then have np: "\<not> P i" using Suc.prems(4)[of i] by simp
  have "find P [i + 1..j] = Some e"
    using Suc.hyps(2) lt Suc.prems by (intro Suc.hyps(1)) auto
  with np lt Suc.prems(2) show ?case by (simp add: upto_rec1[of i j])
qed

text \<open>
  A real \<open>x\<close> in the binade of exponent \<open>e\<close> (or below the normal range, with
  \<open>e = -1022\<close>) rounds to \<open>k * 2 ^ (e - 52)\<close>, where \<open>k\<close> is \<open>x / 2 ^ (e - 52)\<close>
  rounded to the nearest integer.
\<close>

lemma dround_at:
  assumes e: "- 1022 \<le> e" "e \<le> 1023"
    and up: "\<bar>x\<bar> < 2 powi (e + 1)"
    and low: "e = - 1022 \<or> 2 powi e \<le> \<bar>x\<bar>"
    and k: "rne (x / 2 powi (e - 52)) = k"
    and fin: "\<bar>of_int k * (2::real) powi (e - 52)\<bar> < 2 powi 1024"
  shows "dround x = Some (of_int k * 2 powi (e - 52))"
proof -
  have "\<not> \<bar>x\<bar> < 2 powi (j + 1)" if "- 1022 \<le> j" "j < e" for j
  proof -
    from that low have "2 powi e \<le> \<bar>x\<bar>" by auto
    moreover have "(2::real) powi (j + 1) \<le> 2 powi e"
      using that by (intro power_int_increasing) auto
    ultimately show ?thesis by simp
  qed
  then have "find (\<lambda>e. \<bar>x\<bar> < 2 powi (e + 1)) [- 1022..1023] = Some e"
    using e up by (intro find_upto_first) auto
  then show ?thesis using k fin by (simp add: dround_def Let_def)
qed

subsection \<open>Payments that fall short of the principal\<close>

text \<open>
  At rate 0, for the loan of 225000 over 35 years (420 periods), the source computes the
  payment \<open>225000 / 420\<close> rounded to a double and the product of that payment with
  420, rounded again, is 224999.99999999997, below the principal.
\<close>

theorem double_payments_fall_short_of_principal:
  "calculateMonthlyPayment_double 225000 0 35 = Some (4712192690468571 / 8796093022208) \<and>
   dmul (4712192690468571 / 8796093022208) 420 = Some (7730941132799999 / 34359738368) \<and>
   (7730941132799999 / 34359738368 :: real) < 225000"
proof -
  have d1: "ddiv 0 100 = Some 0"
  proof -
    have r: "rne ((0 / 100 :: real) / 2 powi (- 1022 - 52)) = 0"
      by (rule rne_near) simp_all
    from dround_at[where e = "- 1022" and x = "0 / 100", OF _ _ _ _ r]
    show ?thesis by (simp add: ddiv_def)
  qed
  have d2: "ddiv 0 12 = Some 0"
  proof -
    have r: "rne ((0 / 12 :: real) / 2 powi (- 1022 - 52)) = 0"
      by (rule rne_near) simp_all
    from dround_at[where e = "- 1022" and x = "0 / 12", OF _ _ _ _ r]
    show ?thesis by (simp add: ddiv_def)
  qed
  have d3: "dmul 35 12 = Some 420"
  proof -
    have r: "rne ((35 * 12 :: real) / 2 powi (8 - 52)) = 7388718138654720"
      by (rule rne_near) simp_all
    from dround_at[where e = "8" and x = "35 * 12", OF _ _ _ _ r]
    show ?thesis by (simp add: dmul_def)
  qed
  have d4: "ddiv 225000 420 = Some (4712192690468571 / 8796093022208)"
  proof -
    have r: "rne ((225000 / 420 :: real) / 2 powi (9 - 52)) = 4712192690468571"
      by (rule rne_near) simp_all
    from dround_at[where e = "9" and x = "225000 / 420", OF _ _ _ _ r]
    show ?thesis by (simp add: ddiv_def)
  qed
  have d5: "dmul (4712192690468571 / 8796093022208) 420 = Some (7730941132799999 / 34359738368)"
  proof -
    have r: "rne (((4712192690468571 / 8796093022208) * 420 :: real) / 2 powi (17 - 52)) = 7730941132799999"
      by (rule rne_near) simp_all
    from dround_at[where e = "17" and x = "(4712192690468571 / 8796093022208) * 420", OF _ _ _ _ r]
    show ?thesis by (simp add: dmul_def)
  qed
  show ?thesis
    by (simp add: calculateMonthlyPayment_double_def d1 d2 d3 d4 d5)
qed

subsection \<open>A final value that differs from the sum of its totals\<close>

text \<open>
  With the default form, a current pension of 10000 and a retirement age of 32 (two
  years of growth), the source ends with the pension value 30904.322500000002, while its
  three totals 22000, 7200 and 1704.3225 add up to 30904.3225, both as exact numbers and
  when the three are added as doubles.
\<close>

theorem double_final_value_differs_from_totals:
  "projectionTotals_double (defaultFormData\<lparr>currentPension := 10000, retirementAge := 32\<rparr>) =
     Some \<lparr>d_pensionValue = 4247457742161183 / 137438953472,
           d_totalContributions = 22000,
           d_totalEmployerContributions = 7200,
           d_totalGrowth = 7495689624921047 / 4398046511104\<rparr> \<and>
   (4247457742161183 / 137438953472 :: real) \<noteq> 22000 + 7200 + (7495689624921047 / 4398046511104) \<and>
   dadd 22000 7200 = Some 29200 \<and>
   dadd 29200 (7495689624921047 / 4398046511104) = Some (8494915484322365 / 274877906944) \<and>
   (4247457742161183 / 137438953472 :: real) \<noteq> 8494915484322365 / 274877906944"
proof -
  have d1: "ddiv 70 100 = Some (3152519739159347 / 4503599627370496)"
  proof -
    have r: "rne ((70 / 100 :: real) / 2 powi (-1 - 52)) = 6305039478318694"
      by (rule rne_near) simp_all
    from dround_at[where e = "-1" and x = "70 / 100", OF _ _ _ _ r]
    show ?thesis by (simp add: ddiv_def)
  qed
  have d2: "dmul (3152519739159347 / 4503599627370496) 7 = Some (5516909543528857 / 1125899906842624)"
  proof -
    have r: "rne (((3152519739159347 / 4503599627370496) * 7 :: real) / 2 powi (2 - 52)) = 5516909543528857"
      by (rule rne_near) simp_all
    from dround_at[where e = "2" and x = "(3152519739159347 / 4503599627370496) * 7", OF _ _ _ _ r]
    show ?thesis by (simp add: dmul_def)
  qed
  have d3: "ddiv 20 100 = Some (3602879701896397 / 18014398509481984)"
  proof -
    have r: "rne ((20 / 100 :: real) / 2 powi (-3 - 52)) = 7205759403792794"
      by (rule rne_near) simp_all
    from dround_at[where e = "-3" and x = "20 / 100", OF _ _ _ _ r]
    show ?thesis by (simp add: ddiv_def)
  qed
  have d4: "dmul (3602879701896397 / 18014398509481984) 3 = Some (1351079888211149 / 2251799813685248)"
  proof -
    have r: "rne (((3602879701896397 / 18014398509481984) * 3 :: real) / 2 powi (-1 - 52)) = 5404319552844596"
      using rne_tie[of "((3602879701896397 / 18014398509481984) * 3 :: real) / 2 powi (-1 - 52)" 5404319552844595] by simp
    from dround_at[where e = "-1" and x = "(3602879701896397 / 18014398509481984) * 3", OF _ _ _ _ r]
    show ?thesis by (simp add: dmul_def)
  qed
  have d5: "ddiv 10 100 = Some (3602879701896397 / 36028797018963968)"
  proof -
    have r: "rne ((10 / 100 :: real) / 2 powi (-4 - 52)) = 7205759403792794"
      by (rule rne_near) simp_all
    from dround_at[where e = "-4" and x = "10 / 100", OF _ _ _ _ r]
    show ?thesis by (simp add: ddiv_def)
  qed
  have d6: "dmul (3602879701896397 / 36028797018963968) (3 / 2) = Some (1351079888211149 / 9007199254740992)"
  proof -
    have r: "rne (((3602879701896397 / 36028797018963968) * (3 / 2) :: real) / 2 powi (-3 - 52)) = 5404319552844596"
      using rne_tie[of "((3602879701896397 / 36028797018963968) * (3 / 2) :: real) / 2 powi (-3 - 52)" 5404319552844595] by simp
    from dround_at[where e = "-3" and x = "(3602879701896397 / 36028797018963968) * (3 / 2)", OF _ _ _ _ r]
    show ?thesis by (simp add: dmul_def)
  qed
  have d7: "dadd (5516909543528857 / 1125899906842624) (1351079888211149 / 2251799813685248) = Some (11 / 2)"
  proof -
    have r: "rne (((5516909543528857 / 1125899906842624) + (1351079888211149 / 2251799813685248) :: real) / 2 powi (2 - 52)) = 6192449487634432"
      using rne_tie[of "((5516909543528857 / 1125899906842624) + (1351079888211149 / 2251799813685248) :: real) / 2 powi (2 - 52)" 6192449487634431] by simp
    from dround_at[where e = "2" and x = "(5516909543528857 / 1125899906842624) + (1351079888211149 / 2251799813685248)", OF _ _ _ _ r]
    show ?thesis by (simp add: dadd_def)
  qed
  have d8: "dadd (11 / 2) (1351079888211149 / 9007199254740992) = Some (3180667236830413 / 562949953421312)"
  proof -
    have r: "rne (((11 / 2) + (1351079888211149 / 9007199254740992) :: real) / 2 powi (2 - 52)) = 6361334473660826"
      by (rule rne_near) simp_all
    from dround_at[where e = "2" and x = "(11 / 2) + (1351079888211149 / 9007199254740992)", OF _ _ _ _ r]
    show ?thesis by (simp add: dadd_def)
  qed
  have d9: "dmul 500 12 = Some 6000"
  proof -
    have r: "rne ((500 * 12 :: real) / 2 powi (12 - 52)) = 6597069766656000"
      by (rule rne_near) simp_all
    from dround_at[where e = "12" and x = "500 * 12", OF _ _ _ _ r]
    show ?thesis by (simp add: dmul_def)
  qed
  have d10: "dmul 300 12 = Some 3600"
  proof -
    have r: "rne ((300 * 12 :: real) / 2 powi (11 - 52)) = 7916483719987200"
      by (rule rne_near) simp_all
    from dround_at[where e = "11" and x = "300 * 12", OF _ _ _ _ r]
    show ?thesis by (simp add: dmul_def)
  qed
  have d11: "ddiv (3180667236830413 / 562949953421312) 100 = Some (8142508126285857 / 144115188075855872)"
  proof -
    have r: "rne (((3180667236830413 / 562949953421312) / 100 :: real) / 2 powi (-5 - 52)) = 8142508126285857"
      by (rule rne_near) simp_all
    from dround_at[where e = "-5" and x = "(3180667236830413 / 562949953421312) / 100", OF _ _ _ _ r]
    show ?thesis by (simp add: ddiv_def)
  qed
  have d12: "dmul 10000 (8142508126285857 / 144115188075855872) = Some 565"
  proof -
    have r: "rne ((10000 * (8142508126285857 / 144115188075855872) :: real) / 2 powi (9 - 52)) = 4969792557547520"
      by (rule rne_near) simp_all
    from dround_at[where e = "9" and x = "10000 * (8142508126285857 / 144115188075855872)", OF _ _ _ _ r]
    show ?thesis by (simp add: dmul_def)
  qed
  have d13: "dadd 565 6000 = Some 6565"
  proof -
    have r: "rne ((565 + 6000 :: real) / 2 powi (12 - 52)) = 7218293836349440"
      by (rule rne_near) simp_all
    from dround_at[where e = "12" and x = "565 + 6000", OF _ _ _ _ r]
    show ?thesis by (simp add: dadd_def)
  qed
  have d14: "dadd 6565 3600 = Some 10165"
  proof -
    have r: "rne ((6565 + 3600 :: real) / 2 powi (13 - 52)) = 5588267848171520"
      by (rule rne_near) simp_all
    from dround_at[where e = "13" and x = "6565 + 3600", OF _ _ _ _ r]
    show ?thesis by (simp add: dadd_def)
  qed
  have d15: "dadd 10000 10165 = Some 20165"
  proof -
    have r: "rne ((10000 + 10165 :: real) / 2 powi (14 - 52)) = 5542912993525760"
      by (rule rne_near) simp_all
    from dround_at[where e = "14" and x = "10000 + 10165", OF _ _ _ _ r]
    show ?thesis by (simp add: dadd_def)
  qed
  have d16: "dadd 10000 6000 = Some 16000"
  proof -
    have r: "rne ((10000 + 6000 :: real) / 2 powi (13 - 52)) = 8796093022208000"
      by (rule rne_near) simp_all
    from dround_at[where e = "13" and x = "10000 + 6000", OF _ _ _ _ r]
    show ?thesis by (simp add: dadd_def)
  qed
  have d17: "dadd 0 3600 = Some 3600"
  proof -
    have r: "rne ((0 + 3600 :: real) / 2 powi (11 - 52)) = 7916483719987200"
      by (rule rne_near) simp_all
    from dround_at[where e = "11" and x = "0 + 3600", OF _ _ _ _ r]
    show ?thesis by (simp add: dadd_def)
  qed
  have d18: "dadd 0 565 = Some 565"
  proof -
    have r: "rne ((0 + 565 :: real) / 2 powi (9 - 52)) = 4969792557547520"
      by (rule rne_near) simp_all
    from dround_at[where e = "9" and x = "0 + 565", OF _ _ _ _ r]
    show ?thesis by (simp add: dadd_def)
  qed
  have d19: "dmul 20165 (8142508126285857 / 144115188075855872) = Some (5010793346147287 / 4398046511104)"
  proof -
    have r: "rne ((20165 * (8142508126285857 / 144115188075855872) :: real) / 2 powi (10 - 52)) = 5010793346147287"
      by (rule rne_near) simp_all
    from dround_at[where e = "10" and x = "20165 * (8142508126285857 / 144115188075855872)", OF _ _ _ _ r]
    show ?thesis by (simp add: dmul_def)
  qed
  have d20: "dadd (5010793346147287 / 4398046511104) 6000 = Some (3924884051596411 / 549755813888)"
  proof -
    have r: "rne (((5010793346147287 / 4398046511104) + 6000 :: real) / 2 powi (12 - 52)) = 7849768103192822"
      by (rule rne_near) simp_all
    from dround_at[where e = "12" and x = "(5010793346147287 / 4398046511104) + 6000", OF _ _ _ _ r]
    show ?thesis by (simp add: dadd_def)
  qed
  have d21: "dadd (3924884051596411 / 549755813888) 3600 = Some (5904004981593211 / 549755813888)"
  proof -
    have r: "rne (((3924884051596411 / 549755813888) + 3600 :: real) / 2 powi (13 - 52)) = 5904004981593211"
      by (rule rne_near) simp_all
    from dround_at[where e = "13" and x = "(3924884051596411 / 549755813888) + 3600", OF _ _ _ _ r]
    show ?thesis by (simp add: dadd_def)
  qed
  have d22: "dadd 20165 (5904004981593211 / 549755813888) = Some (4247457742161183 / 137438953472)"
  proof -
    have r: "rne ((20165 + (5904004981593211 / 549755813888) :: real) / 2 powi (14 - 52)) = 8494915484322366"
      using rne_tie[of "(20165 + (5904004981593211 / 549755813888) :: real) / 2 powi (14 - 52)" 8494915484322365] by simp
    from dround_at[where e = "14" and x = "20165 + (5904004981593211 / 549755813888)", OF _ _ _ _ r]
    show ?thesis by (simp add: dadd_def)
  qed
  have d23: "dadd 16000 6000 = Some 22000"
  proof -
    have r: "rne ((16000 + 6000 :: real) / 2 powi (14 - 52)) = 6047313952768000"
      by (rule rne_near) simp_all
    from dround_at[where e = "14" and x = "16000 + 6000", OF _ _ _ _ r]
    show ?thesis by (simp add: dadd_def)
  qed
  have d24: "dadd 3600 3600 = Some 7200"
  proof -
    have r: "rne ((3600 + 3600 :: real) / 2 powi (12 - 52)) = 7916483719987200"
      by (rule rne_near) simp_all
    from dround_at[where e = "12" and x = "3600 + 3600", OF _ _ _ _ r]
    show ?thesis by (simp add: dadd_def)
  qed
  have d25: "dadd 565 (5010793346147287 / 4398046511104) = Some (7495689624921047 / 4398046511104)"
  proof -
    have r: "rne ((565 + (5010793346147287 / 4398046511104) :: real) / 2 powi (10 - 52)) = 7495689624921047"
      by (rule rne_near) simp_all
    from dround_at[where e = "10" and x = "565 + (5010793346147287 / 4398046511104)", OF _ _ _ _ r]
    show ?thesis by (simp add: dadd_def)
  qed
  have d26: "dadd 22000 7200 = Some 29200"
  proof -
    have r: "rne ((22000 + 7200 :: real) / 2 powi (14 - 52)) = 8026434882764800"
      by (rule rne_near) simp_all
    from dround_at[where e = "14" and x = "22000 + 7200", OF _ _ _ _ r]
    show ?thesis by (simp add: dadd_def)
  qed
  have d27: "dadd 29200 (7495689624921047 / 4398046511104) = Some (8494915484322365 / 274877906944)"
  proof -
    have r: "rne ((29200 + (7495689624921047 / 4398046511104) :: real) / 2 powi (14 - 52)) = 8494915484322365"
      by (rule rne_near) simp_all
    from dround_at[where e = "14" and x = "29200 + (7495689624921047 / 4398046511104)", OF _ _ _ _ r]
    show ?thesis by (simp add: dadd_def)
  qed
  show ?thesis
    by (simp add: projectionTotals_double_def weightedReturn_double_def
          projectionLoop_double.simps projectionYear_double_def defaultFormData_def
          d1 d2 d3 d4 d5 d6 d7 d8 d9 d10 d11 d12 d13 d14 d15 d16 d17 d18 d19 d20 d21 d22 d23 d24 d25 d26 d27)
qed

end
